theory Spec2Isabelle
  imports Main "HOL-Library.Word" "HOL-Library.Code_Target_Nat"
begin

section \<open>Passkey ceremonies: data model\<close>

text \<open>
  The module under study is the passkey module of the models package (its four exported
  functions \<open>getRegistrationOptions\<close>, \<open>verifyRegistration\<close>, \<open>getAuthenticationOptions\<close>
  and \<open>verifyAuthentication\<close>). Field names are the source's; where two records share a
  field name, or the name is a HOL constant, a record tag is appended (\<open>id_pk\<close> is the
  \<open>id\<close> of a passkey row, \<open>id_acct\<close> the \<open>id\<close> of an account, and so on).

  Text that the ceremonies only compare or concatenate (identifiers, challenges, origins)
  is a \<open>string\<close>. The label of a passkey is the one text they transform, with
  \<open>name.trim()\<close>; it is a \<open>js_string\<close>, the sequence of UTF-16 code units a JavaScript
  string is.

  Time is a number of milliseconds; every operation receives the current time \<open>now\<close>
  explicitly (the source reads it through the key-value store and through
  \<open>CURRENT_TIMESTAMP\<close>).
\<close>

type_synonym bytes = "8 word list"
type_synonym js_string = "16 word list"
type_synonym Uuid = string
type_synonym timestamp = nat

text \<open>The account row; the ceremonies read only \<open>id\<close>, \<open>username\<close> and the joined \<open>passkeys\<close>.\<close>

record account =
  id_acct :: Uuid
  username :: string

datatype device_type = singleDevice | multiDevice

text \<open>A row of \<open>passkeyTable\<close> (type \<open>Passkey\<close>).\<close>

record passkey =
  id_pk :: string
  accountId :: Uuid
  name_pk :: js_string
  publicKey_pk :: bytes
  webauthnUserId :: string
  counter_pk :: nat
  deviceType :: device_type
  backedUp :: bool
  transports_pk :: "string list option"
  lastUsed :: "timestamp option"
  created :: timestamp

text \<open>\<open>Account & { passkeys: Passkey[] }\<close>, the argument of \<open>getRegistrationOptions\<close>.\<close>

record account_with_passkeys = account +
  passkeys :: "passkey list"

subsection \<open>WebAuthn JSON structures\<close>

record credential_descriptor =
  id_desc :: string
  transports_desc :: "string list option"

record rp_entity =
  name_rp :: string
  id_rp :: string

record user_entity =
  id_user :: string
  name_user :: string

text \<open>\<open>PublicKeyCredentialCreationOptionsJSON\<close> and \<open>PublicKeyCredentialRequestOptionsJSON\<close>.\<close>

record creation_options =
  challenge_creation :: string
  rp :: rp_entity
  user :: user_entity
  attestation :: string
  excludeCredentials :: "credential_descriptor list"

record request_options =
  challenge_request :: string
  rpId :: string

text \<open>
  The one key-value store holds both kinds of options. \<open>kv.get<T>\<close> is an unchecked cast,
  so a reader sees whichever kind is stored under the key.
\<close>

datatype options_json = CreationOptions creation_options | RequestOptions request_options

text \<open>
  What the client sends back. The ceremonies themselves read only \<open>response.id\<close> of an
  authentication response; every other field is material for the Credential Verifier.
  \<open>counter_ar\<close> is the signature counter embedded in the authenticator data.
\<close>

record registration_response =
  id_rr :: string
  challenge_rr :: string
  origin_rr :: string
  publicKey_rr :: bytes
  counter_rr :: nat
  deviceType_rr :: device_type
  backedUp_rr :: bool
  transports_rr :: "string list option"

record authentication_response =
  id_ar :: string
  challenge_ar :: string
  origin_ar :: string
  counter_ar :: nat
  signature_ar :: bytes

text \<open>\<open>WebAuthnCredential\<close>, and the results \<open>VerifiedRegistrationResponse\<close> and
  \<open>VerifiedAuthenticationResponse\<close> of the verifier.\<close>

record webauthn_credential =
  id_cred :: string
  publicKey_cred :: bytes
  counter_cred :: nat
  transports_cred :: "string list option"

record registration_info =
  credential :: webauthn_credential
  credentialDeviceType :: device_type
  credentialBackedUp :: bool

record verified_registration =
  verified_reg :: bool
  registrationInfo :: "registration_info option"

record authentication_info =
  credentialID :: string
  newCounter :: nat

record verified_authentication =
  verified_auth :: bool
  authenticationInfo :: authentication_info

text \<open>The argument objects of \<open>verifyRegistrationResponse\<close> and \<open>verifyAuthenticationResponse\<close>.\<close>

record registration_request =
  response_rq :: registration_response
  expectedChallenge_rq :: string
  expectedOrigin_rq :: string
  expectedRPID_rq :: string

record authentication_request =
  response_aq :: authentication_response
  expectedChallenge_aq :: string
  expectedOrigin_aq :: string
  expectedRPID_aq :: string
  credential_aq :: webauthn_credential

subsection \<open>Failures\<close>

text \<open>
  The Credential Verifier is an external capability; what it throws is opaque to the
  ceremonies and propagates through them unchanged. The spec names its two failure
  categories, and the category is what the model keeps of a verifier error: the message
  the library writes into it is the library's own and is not modelled.
\<close>

datatype verifier_error = VerificationFailed | PossibleCloneDetected

text \<open>
  Everything the four functions can throw:
  \<^item> \<open>MissingChallenge a\<close>: \<open>throw new Error(`Missing registration options for account ${a}.`)\<close>;
  \<^item> \<open>InvalidURL\<close>: \<open>new URL(origin)\<close> throws on a string that is not a URL;
  \<^item> \<open>VerifierError e\<close>: the verifier threw \<open>e\<close>;
  \<^item> \<open>DuplicateCredential\<close>: the insert hit the primary key of \<open>passkeyTable\<close>;
  \<^item> \<open>TypeError\<close>: \<open>options.user.id\<close> on stored options that have no \<open>user\<close>.

  \<open>verifyAuthentication\<close> reports an absent challenge and an unknown credential by
  returning \<open>undefined\<close>, which is \<open>Inr None\<close> below, not by throwing.
\<close>

datatype error =
    MissingChallenge Uuid
  | InvalidURL
  | VerifierError verifier_error
  | DuplicateCredential
  | TypeError

section \<open>Collaborators\<close>

subsection \<open>URL parsing\<close>

text \<open>
  \<open>new URL(origin)\<close> is the platform's parser; the ceremonies take it as a parameter
  \<open>URL :: string \<Rightarrow> url option\<close> (\<open>None\<close> when the constructor throws) and read the
  \<open>origin\<close> and \<open>hostname\<close> properties of the result.
\<close>

record url =
  origin_url :: string
  hostname :: string

subsection \<open>Challenge store\<close>

text \<open>
  Modelled from the spec: the Challenge Store, which the source reaches through the
  \<open>Keyv\<close> interface (\<open>kv.set(key, value, ttl?)\<close>, \<open>kv.get(key)\<close>); the store's own code
  is not part of the module. \<open>set\<close> overwrites the entry of the key; a time-to-live in
  milliseconds gives the entry the expiry \<open>now + ttl\<close>; without one the store's configured
  default applies, and without a default (or with a time-to-live of 0) the entry never
  expires. \<open>get\<close> returns the value of an entry that is present and not expired; an entry
  whose expiry lies in the past is reported absent and removed.
\<close>

record kv_entry =
  value_kv :: options_json
  expires :: "timestamp option"

record keyv =
  ttl_default :: "nat option"
  store :: "string \<rightharpoonup> kv_entry"

definition kv_set :: "keyv \<Rightarrow> timestamp \<Rightarrow> string \<Rightarrow> options_json \<Rightarrow> nat option \<Rightarrow> keyv" where
  "kv_set kv now key v ttl =
     (let ttl1 = (case ttl of None \<Rightarrow> ttl_default kv | Some t \<Rightarrow> Some t);
          ttl2 = (if ttl1 = Some 0 then None else ttl1)
      in kv\<lparr>store := (store kv)(key \<mapsto>
            \<lparr>value_kv = v, expires = map_option (\<lambda>t. now + t) ttl2\<rparr>)\<rparr>)"

definition expired :: "kv_entry \<Rightarrow> timestamp \<Rightarrow> bool" where
  "expired e now = (case expires e of None \<Rightarrow> False | Some t \<Rightarrow> t < now)"

definition kv_get :: "keyv \<Rightarrow> timestamp \<Rightarrow> string \<Rightarrow> options_json option \<times> keyv" where
  "kv_get kv now key =
     (case store kv key of
        None \<Rightarrow> (None, kv)
      | Some e \<Rightarrow>
          if expired e now then (None, kv\<lparr>store := (store kv)(key := None)\<rparr>)
          else (Some (value_kv e), kv))"

subsection \<open>Credential repository\<close>

text \<open>
  Modelled from the spec: the Credential Repository, which the source reaches through the
  query builder (\<open>db.query.passkeyTable.findFirst\<close>, \<open>db.insert(passkeyTable).values\<close>,
  \<open>db.update(passkeyTable).set(...).where(eq(passkeyTable.id, ...))\<close>); the table
  declaration is not part of the module. Rows are keyed by credential id; \<open>insert\<close> fails
  with \<open>DuplicateCredential\<close> when the id already exists; the update sets the named
  columns of every row the \<open>where\<close> clause selects.
\<close>

record database =
  passkeyTable :: "passkey list"
  accountTable :: "account list"

text \<open>\<open>findFirst({ where: { id }, with: { account: true } })\<close>: the row and its owner.\<close>

definition findFirst :: "database \<Rightarrow> string \<Rightarrow> (passkey \<times> account option) option" where
  "findFirst db i =
     (case find (\<lambda>p. id_pk p = i) (passkeyTable db) of
        None \<Rightarrow> None
      | Some p \<Rightarrow> Some (p, find (\<lambda>a. id_acct a = accountId p) (accountTable db)))"

definition db_insert :: "database \<Rightarrow> passkey \<Rightarrow> error + database" where
  "db_insert db row =
     (if id_pk row \<in> set (map id_pk (passkeyTable db)) then Inl DuplicateCredential
      else Inr (db\<lparr>passkeyTable := passkeyTable db @ [row]\<rparr>))"

definition db_update :: "database \<Rightarrow> string \<Rightarrow> nat \<Rightarrow> timestamp \<Rightarrow> database" where
  "db_update db i c now =
     db\<lparr>passkeyTable :=
          map (\<lambda>p. if id_pk p = i then p\<lparr>counter_pk := c, lastUsed := Some now\<rparr> else p)
              (passkeyTable db)\<rparr>"

subsection \<open>Option generators\<close>

text \<open>
  Modelled from the spec: the option generators of the WebAuthn library
  (\<open>generateRegistrationOptions\<close>, \<open>generateAuthenticationOptions\<close>), which are not part
  of the module. They mint a fresh challenge (and, for registration, a user handle) and
  copy the rest from their argument; the fresh values are passed in.
\<close>

definition generateRegistrationOptions ::
  "string \<Rightarrow> string \<Rightarrow> string \<Rightarrow> string \<Rightarrow> string \<Rightarrow> string \<Rightarrow> credential_descriptor list
     \<Rightarrow> creation_options" where
  "generateRegistrationOptions challenge userID rpName rpID userName attestationType excl =
     \<lparr>challenge_creation = challenge,
      rp = \<lparr>name_rp = rpName, id_rp = rpID\<rparr>,
      user = \<lparr>id_user = userID, name_user = userName\<rparr>,
      attestation = attestationType,
      excludeCredentials = excl\<rparr>"

definition generateAuthenticationOptions :: "string \<Rightarrow> string \<Rightarrow> request_options" where
  "generateAuthenticationOptions challenge rpID = \<lparr>challenge_request = challenge, rpId = rpID\<rparr>"

subsection \<open>Built-in conversions\<close>

text \<open>
  \<open>Number(b)\<close> for a non-negative \<open>BigInt\<close> \<open>b\<close>: the nearest double, ties to even; exact
  below \<open>2^53\<close>. The column is a 64-bit integer, so the result is always finite.
  \<open>BigInt(n)\<close> of an integral number is exact.
\<close>

fun bit_length :: "nat \<Rightarrow> nat" where
  "bit_length n = (if n = 0 then 0 else Suc (bit_length (n div 2)))"

definition Number :: "nat \<Rightarrow> nat" where
  "Number b =
     (if b < 2 ^ 53 then b
      else let e = bit_length b - 53; m = b div 2 ^ e; r = b mod 2 ^ e; h = 2 ^ (e - 1)
           in (if h < r \<or> (r = h \<and> odd m) then m + 1 else m) * 2 ^ e)"

text \<open>
  \<open>String.prototype.trim\<close> removes leading and trailing white space and line terminators:
  U+0009 to U+000D, U+0020, U+00A0, U+1680, U+2000 to U+200A, U+2028, U+2029, U+202F,
  U+205F, U+3000 and U+FEFF, each a single code unit.
\<close>

definition is_space :: "16 word \<Rightarrow> bool" where
  "is_space c =
     ((0x0009 \<le> c \<and> c \<le> 0x000D) \<or> c = 0x0020 \<or> c = 0x00A0 \<or> c = 0x1680
      \<or> (0x2000 \<le> c \<and> c \<le> 0x200A) \<or> c = 0x2028 \<or> c = 0x2029 \<or> c = 0x202F
      \<or> c = 0x205F \<or> c = 0x3000 \<or> c = 0xFEFF)"

definition trim :: "js_string \<Rightarrow> js_string" where
  "trim s = rev (dropWhile is_space (rev (dropWhile is_space s)))"

text \<open>The code units of a text written in ASCII.\<close>

definition utf16 :: "string \<Rightarrow> js_string" where
  "utf16 s = map of_char s"

section \<open>The ceremonies\<close>

definition RP_NAME :: string where
  "RP_NAME = ''Hackers'' @ [CHR 0x27] @ '' Pub''"

definition KV_NAMESPACE :: string where
  "KV_NAMESPACE = ''passkey''"

definition registration_key :: "Uuid \<Rightarrow> string" where
  "registration_key a = KV_NAMESPACE @ ''/registration/'' @ a"

definition authentication_key :: "Uuid \<Rightarrow> string" where
  "authentication_key s = KV_NAMESPACE @ ''/authentication/'' @ s"

definition challenge_of :: "options_json \<Rightarrow> string" where
  "challenge_of opts =
     (case opts of CreationOptions c \<Rightarrow> challenge_creation c
                 | RequestOptions r \<Rightarrow> challenge_request r)"

definition user_id_of :: "options_json \<Rightarrow> string option" where
  "user_id_of opts =
     (case opts of CreationOptions c \<Rightarrow> Some (id_user (user c))
                 | RequestOptions r \<Rightarrow> None)"

text \<open>The argument objects the two verify functions hand to the verifier.\<close>

definition registration_request_of ::
  "options_json \<Rightarrow> url \<Rightarrow> registration_response \<Rightarrow> registration_request" where
  "registration_request_of options u response =
     \<lparr>response_rq = response,
      expectedChallenge_rq = challenge_of options,
      expectedOrigin_rq = origin_url u,
      expectedRPID_rq = hostname u\<rparr>"

definition authentication_request_of ::
  "options_json \<Rightarrow> url \<Rightarrow> passkey \<Rightarrow> authentication_response \<Rightarrow> authentication_request" where
  "authentication_request_of options u passkey response =
     \<lparr>response_aq = response,
      expectedChallenge_aq = challenge_of options,
      expectedOrigin_aq = origin_url u,
      expectedRPID_aq = hostname u,
      credential_aq =
        \<lparr>id_cred = id_ar response,
         publicKey_cred = publicKey_pk passkey,
         counter_cred = Number (counter_pk passkey),
         transports_cred = transports_pk passkey\<rparr>\<rparr>"

text \<open>
  \<open>getRegistrationOptions(kv, origin, account)\<close>. The first two arguments are the URL
  parser and the generator's fresh values (challenge, user handle).
\<close>

definition getRegistrationOptions ::
  "(string \<Rightarrow> url option) \<Rightarrow> string \<times> string \<Rightarrow> timestamp \<Rightarrow> keyv \<Rightarrow> string
     \<Rightarrow> account_with_passkeys \<Rightarrow> (error + creation_options) \<times> keyv" where
  "getRegistrationOptions URL fresh now kv origin account =
     (case URL origin of
        None \<Rightarrow> (Inl InvalidURL, kv)
      | Some u \<Rightarrow>
          let options = generateRegistrationOptions (fst fresh) (snd fresh)
                RP_NAME (hostname u) (username account) ''none''
                (map (\<lambda>passkey. \<lparr>id_desc = id_pk passkey,
                                 transports_desc = transports_pk passkey\<rparr>)
                     (passkeys account))
          in (Inr options,
              kv_set kv now (registration_key (id_acct account)) (CreationOptions options) None))"

text \<open>
  \<open>verifyRegistration(db, kv, origin, account, name, response)\<close>. The inserted row takes
  the column defaults \<open>created = CURRENT_TIMESTAMP\<close> and \<open>lastUsed = NULL\<close>.
\<close>

definition verifyRegistration ::
  "(string \<Rightarrow> url option) \<Rightarrow> (registration_request \<Rightarrow> verifier_error + verified_registration)
     \<Rightarrow> timestamp \<Rightarrow> database \<Rightarrow> keyv \<Rightarrow> string \<Rightarrow> account \<Rightarrow> js_string \<Rightarrow> registration_response
     \<Rightarrow> (error + verified_registration) \<times> database \<times> keyv" where
  "verifyRegistration URL verifyRegistrationResponse now db kv origin account name response =
     (case kv_get kv now (registration_key (id_acct account)) of
        (None, kv1) \<Rightarrow> (Inl (MissingChallenge (id_acct account)), db, kv1)
      | (Some options, kv1) \<Rightarrow>
          (case URL origin of
             None \<Rightarrow> (Inl InvalidURL, db, kv1)
           | Some u \<Rightarrow>
               (case verifyRegistrationResponse (registration_request_of options u response) of
                  Inl e \<Rightarrow> (Inl (VerifierError e), db, kv1)
                | Inr result \<Rightarrow>
                    (case (verified_reg result, registrationInfo result) of
                       (True, Some info) \<Rightarrow>
                         (case user_id_of options of
                            None \<Rightarrow> (Inl TypeError, db, kv1)
                          | Some uid \<Rightarrow>
                              (case db_insert db
                                      \<lparr>id_pk = id_cred (credential info),
                                       accountId = id_acct account,
                                       name_pk = trim name,
                                       publicKey_pk = publicKey_cred (credential info),
                                       webauthnUserId = uid,
                                       counter_pk = counter_cred (credential info),
                                       deviceType = credentialDeviceType info,
                                       backedUp = credentialBackedUp info,
                                       transports_pk = transports_cred (credential info),
                                       lastUsed = None,
                                       created = now\<rparr> of
                                 Inl err \<Rightarrow> (Inl err, db, kv1)
                               | Inr db1 \<Rightarrow> (Inr result, db1, kv1)))
                     | _ \<Rightarrow> (Inr result, db, kv1)))))"

text \<open>\<open>getAuthenticationOptions(kv, origin, sessionId)\<close>; the time-to-live is \<open>5 * 60 * 1000\<close>.\<close>

definition getAuthenticationOptions ::
  "(string \<Rightarrow> url option) \<Rightarrow> string \<Rightarrow> timestamp \<Rightarrow> keyv \<Rightarrow> string \<Rightarrow> Uuid
     \<Rightarrow> (error + request_options) \<times> keyv" where
  "getAuthenticationOptions URL fresh now kv origin sessionId =
     (case URL origin of
        None \<Rightarrow> (Inl InvalidURL, kv)
      | Some u \<Rightarrow>
          let options = generateAuthenticationOptions fresh (hostname u)
          in (Inr options,
              kv_set kv now (authentication_key sessionId) (RequestOptions options)
                (Some (5 * 60 * 1000))))"

text \<open>
  \<open>verifyAuthentication(db, kv, origin, sessionId, response)\<close>. The returned object
  \<open>{ response, account, passkey }\<close> holds the row as it was read, before the update.
\<close>

record authentication_outcome =
  response_out :: verified_authentication
  account_out :: "account option"
  passkey_out :: passkey

definition verifyAuthentication ::
  "(string \<Rightarrow> url option) \<Rightarrow> (authentication_request \<Rightarrow> verifier_error + verified_authentication)
     \<Rightarrow> timestamp \<Rightarrow> database \<Rightarrow> keyv \<Rightarrow> string \<Rightarrow> Uuid \<Rightarrow> authentication_response
     \<Rightarrow> (error + authentication_outcome option) \<times> database \<times> keyv" where
  "verifyAuthentication URL verifyAuthenticationResponse now db kv origin sessionId response =
     (case kv_get kv now (authentication_key sessionId) of
        (None, kv1) \<Rightarrow> (Inr None, db, kv1)
      | (Some options, kv1) \<Rightarrow>
          (case findFirst db (id_ar response) of
             None \<Rightarrow> (Inr None, db, kv1)
           | Some (passkey, owner) \<Rightarrow>
               (case URL origin of
                  None \<Rightarrow> (Inl InvalidURL, db, kv1)
                | Some u \<Rightarrow>
                    (case verifyAuthenticationResponse
                            (authentication_request_of options u passkey response) of
                       Inl e \<Rightarrow> (Inl (VerifierError e), db, kv1)
                     | Inr result \<Rightarrow>
                         (let db1 = (if verified_auth result
                                     then db_update db (id_ar response)
                                            (newCounter (authenticationInfo result)) now
                                     else db)
                          in (Inr (Some \<lparr>response_out = result, account_out = owner,
                                          passkey_out = passkey\<rparr>), db1, kv1))))))"

section \<open>Notions of the specification\<close>

text \<open>
  An entry is treated as absent when the store holds nothing under the key or what it
  holds has expired.
\<close>

definition absent_or_expired :: "keyv \<Rightarrow> timestamp \<Rightarrow> string \<Rightarrow> bool" where
  "absent_or_expired kv now key = (case store kv key of None \<Rightarrow> True | Some e \<Rightarrow> expired e now)"

text \<open>
  Modelled from the spec: the counter contract of the Credential Verifier, which is an
  external library. The counter reported by the authenticator must exceed the stored one,
  unless both are exactly zero; any other transition fails with \<open>PossibleCloneDetected\<close>.
  \<open>valid\<close> stands for the verifier's other checks (signature, origin, relying party):
  on a request that passes them, the verifier accepts an allowed counter, reporting it as
  \<open>newCounter\<close>, and rejects a forbidden one.
\<close>

definition counter_accepted :: "nat \<Rightarrow> nat \<Rightarrow> bool" where
  "counter_accepted stored reported = (stored < reported \<or> (stored = 0 \<and> reported = 0))"

definition enforces_counter_contract ::
  "(authentication_request \<Rightarrow> bool)
     \<Rightarrow> (authentication_request \<Rightarrow> verifier_error + verified_authentication) \<Rightarrow> bool" where
  "enforces_counter_contract valid V =
     (\<forall>req. valid req \<longrightarrow>
        (if counter_accepted (counter_cred (credential_aq req)) (counter_ar (response_aq req))
         then \<exists>r. V req = Inr r \<and> verified_auth r
                \<and> newCounter (authenticationInfo r) = counter_ar (response_aq req)
         else V req = Inl PossibleCloneDetected))"

text \<open>
  The verifier reports failure either by throwing or by returning a result whose
  \<open>verified\<close> flag is false.
\<close>

definition registration_rejected :: "verifier_error + verified_registration \<Rightarrow> bool" where
  "registration_rejected v = (case v of Inl e \<Rightarrow> True | Inr r \<Rightarrow> \<not> verified_reg r)"

definition authentication_rejected :: "verifier_error + verified_authentication \<Rightarrow> bool" where
  "authentication_rejected v = (case v of Inl e \<Rightarrow> True | Inr r \<Rightarrow> \<not> verified_auth r)"

text \<open>
  A submission succeeds when the function returns a verified result: for authentication
  the object with a verified response, for registration a verified result that carried
  the registration information (and so was inserted).
\<close>

definition authenticated :: "error + authentication_outcome option \<Rightarrow> bool" where
  "authenticated res =
     (case res of Inr (Some out) \<Rightarrow> verified_auth (response_out out) | _ \<Rightarrow> False)"

definition registered :: "error + verified_registration \<Rightarrow> bool" where
  "registered res =
     (case res of Inr r \<Rightarrow> verified_reg r \<and> registrationInfo r \<noteq> None | _ \<Rightarrow> False)"

text \<open>
  The public keys a returned value carries: a registration result holds the credential's
  public key in its registration information, an authentication result holds the matched
  row; a thrown error and \<open>undefined\<close> hold none.
\<close>

definition registration_result_keys :: "error + verified_registration \<Rightarrow> bytes list" where
  "registration_result_keys res =
     (case res of
        Inr r \<Rightarrow> (case registrationInfo r of
                    Some info \<Rightarrow> [publicKey_cred (credential info)] | None \<Rightarrow> [])
      | Inl e \<Rightarrow> [])"

definition authentication_result_keys :: "error + authentication_outcome option \<Rightarrow> bytes list" where
  "authentication_result_keys res =
     (case res of Inr (Some out) \<Rightarrow> [publicKey_pk (passkey_out out)] | _ \<Rightarrow> [])"

section \<open>A worked scenario\<close>

text \<open>
  The end-to-end scenario of the specification, with stand-ins for the collaborators: a
  URL parser that knows the one configured origin, and verifiers that compare the
  challenge and the origin, take the public key itself as the signature, and apply the
  counter rule.
\<close>

definition site :: string where
  "site = ''https://hackers.pub''"

definition site_URL :: "string \<Rightarrow> url option" where
  "site_URL s = (if s = site then Some \<lparr>origin_url = site, hostname = ''hackers.pub''\<rparr> else None)"

definition plain_registration_verifier ::
  "registration_request \<Rightarrow> verifier_error + verified_registration" where
  "plain_registration_verifier req =
     (if challenge_rr (response_rq req) = expectedChallenge_rq req
         \<and> origin_rr (response_rq req) = expectedOrigin_rq req
      then Inr \<lparr>verified_reg = True,
                registrationInfo = Some
                  \<lparr>credential =
                     \<lparr>id_cred = id_rr (response_rq req),
                      publicKey_cred = publicKey_rr (response_rq req),
                      counter_cred = counter_rr (response_rq req),
                      transports_cred = transports_rr (response_rq req)\<rparr>,
                   credentialDeviceType = deviceType_rr (response_rq req),
                   credentialBackedUp = backedUp_rr (response_rq req)\<rparr>\<rparr>
      else Inl VerificationFailed)"

definition plain_valid :: "authentication_request \<Rightarrow> bool" where
  "plain_valid req =
     (challenge_ar (response_aq req) = expectedChallenge_aq req
      \<and> origin_ar (response_aq req) = expectedOrigin_aq req
      \<and> signature_ar (response_aq req) = publicKey_cred (credential_aq req))"

definition plain_authentication_verifier ::
  "authentication_request \<Rightarrow> verifier_error + verified_authentication" where
  "plain_authentication_verifier req =
     (if \<not> plain_valid req then Inl VerificationFailed
      else if counter_accepted (counter_cred (credential_aq req)) (counter_ar (response_aq req))
      then Inr \<lparr>verified_auth = True,
                authenticationInfo =
                  \<lparr>credentialID = id_cred (credential_aq req),
                   newCounter = counter_ar (response_aq req)\<rparr>\<rparr>
      else Inl PossibleCloneDetected)"

text \<open>A verifier that finds every signature wrong and says so in its result.\<close>

definition rejecting_verifier ::
  "authentication_request \<Rightarrow> verifier_error + verified_authentication" where
  "rejecting_verifier req =
     Inr \<lparr>verified_auth = False,
          authenticationInfo =
            \<lparr>credentialID = id_cred (credential_aq req),
             newCounter = counter_ar (response_aq req)\<rparr>\<rparr>"

definition alice :: account where
  "alice = \<lparr>id_acct = ''alice'', username = ''alice''\<rparr>"

definition alice_new :: account_with_passkeys where
  "alice_new = \<lparr>id_acct = ''alice'', username = ''alice'', passkeys = []\<rparr>"

definition kv_init :: keyv where
  "kv_init = \<lparr>ttl_default = None, store = Map.empty\<rparr>"

definition db_init :: database where
  "db_init = \<lparr>passkeyTable = [], accountTable = [alice]\<rparr>"

text \<open>Registration options for \<open>alice\<close> at time 0, and her response for \<open>cred-1\<close>.\<close>

definition kv_registering :: keyv where
  "kv_registering = snd (getRegistrationOptions site_URL (''challenge-1'', ''handle-1'') 0 kv_init site alice_new)"

definition cred1_registration :: registration_response where
  "cred1_registration =
     \<lparr>id_rr = ''cred-1'', challenge_rr = ''challenge-1'', origin_rr = site,
      publicKey_rr = [1, 2, 3], counter_rr = 0, deviceType_rr = singleDevice,
      backedUp_rr = False, transports_rr = Some [''internal'']\<rparr>"

definition cred1_row :: passkey where
  "cred1_row =
     \<lparr>id_pk = ''cred-1'', accountId = ''alice'', name_pk = utf16 ''laptop'',
      publicKey_pk = [1, 2, 3], webauthnUserId = ''handle-1'', counter_pk = 0,
      deviceType = singleDevice, backedUp = False, transports_pk = Some [''internal''],
      lastUsed = None, created = 1000\<rparr>"

definition db_registered :: database where
  "db_registered = \<lparr>passkeyTable = [cred1_row], accountTable = [alice]\<rparr>"

text \<open>Authentication options for session \<open>sess-1\<close> at time 2000, and the assertion of \<open>cred-1\<close>.\<close>

definition kv_authenticating :: keyv where
  "kv_authenticating = snd (getAuthenticationOptions site_URL ''challenge-2'' 2000 kv_registering site ''sess-1'')"

definition cred1_assertion :: "nat \<Rightarrow> authentication_response" where
  "cred1_assertion n =
     \<lparr>id_ar = ''cred-1'', challenge_ar = ''challenge-2'', origin_ar = site,
      counter_ar = n, signature_ar = [1, 2, 3]\<rparr>"

definition db_used :: "nat \<Rightarrow> timestamp \<Rightarrow> database" where
  "db_used n t =
     \<lparr>passkeyTable = [cred1_row\<lparr>counter_pk := n, lastUsed := Some t\<rparr>], accountTable = [alice]\<rparr>"

text \<open>A repository with a second account and credential, for the frame of an update.\<close>

definition cred2_row :: passkey where
  "cred2_row =
     \<lparr>id_pk = ''cred-2'', accountId = ''bob'', name_pk = utf16 ''phone'',
      publicKey_pk = [9, 8, 7], webauthnUserId = ''handle-2'', counter_pk = 41,
      deviceType = multiDevice, backedUp = True, transports_pk = None,
      lastUsed = Some 500, created = 100\<rparr>"

definition db_two :: "nat \<Rightarrow> timestamp option \<Rightarrow> database" where
  "db_two n l =
     \<lparr>passkeyTable = [cred2_row, cred1_row\<lparr>counter_pk := n, lastUsed := l\<rparr>],
      accountTable = [\<lparr>id_acct = ''bob'', username = ''bob''\<rparr>, alice]\<rparr>"

text \<open>
  Later, \<open>alice\<close> asks for registration options again, now owning \<open>cred-1\<close>, and
  registers a second authenticator.
\<close>

definition alice_registered :: account_with_passkeys where
  "alice_registered = \<lparr>id_acct = ''alice'', username = ''alice'', passkeys = [cred1_row]\<rparr>"

definition kv_again :: keyv where
  "kv_again = snd (getRegistrationOptions site_URL (''challenge-3'', ''handle-1'') 6000
                     kv_authenticating site alice_registered)"

definition cred3_registration :: registration_response where
  "cred3_registration =
     \<lparr>id_rr = ''cred-3'', challenge_rr = ''challenge-3'', origin_rr = site,
      publicKey_rr = [4, 5, 6], counter_rr = 0, deviceType_rr = multiDevice,
      backedUp_rr = True, transports_rr = None\<rparr>"

definition options_again :: creation_options where
  "options_again =
     \<lparr>challenge_creation = ''challenge-3'',
      rp = \<lparr>name_rp = RP_NAME, id_rp = ''hackers.pub''\<rparr>,
      user = \<lparr>id_user = ''handle-1'', name_user = ''alice''\<rparr>,
      attestation = ''none'',
      excludeCredentials = [\<lparr>id_desc = ''cred-1'', transports_desc = Some [''internal'']\<rparr>]\<rparr>"

section \<open>Basic facts\<close>

lemmas scenario_defs = site_def site_URL_def alice_def alice_new_def kv_init_def db_init_def
  kv_registering_def cred1_registration_def cred1_row_def db_registered_def kv_authenticating_def
  cred1_assertion_def db_used_def

lemmas operation_defs = kv_set_def kv_get_def expired_def absent_or_expired_def findFirst_def
  db_insert_def db_update_def generateRegistrationOptions_def generateAuthenticationOptions_def
  Number_def trim_def is_space_def utf16_def RP_NAME_def KV_NAMESPACE_def registration_key_def
  authentication_key_def challenge_of_def user_id_of_def registration_request_of_def
  authentication_request_of_def getRegistrationOptions_def getAuthenticationOptions_def

subsection \<open>The challenge store\<close>

lemma kv_get_absent: "(fst (kv_get kv now key) = None) = absent_or_expired kv now key"
  by (simp add: kv_get_def absent_or_expired_def split: option.splits)

lemma kv_get_live: "fst (kv_get kv now key) = Some v \<Longrightarrow> snd (kv_get kv now key) = kv"
  by (simp add: kv_get_def split: option.splits if_splits)

lemma kv_get_cases:
  obtains (absent) kv1 where "kv_get kv now key = (None, kv1)" "absent_or_expired kv now key"
        | (live) v where "kv_get kv now key = (Some v, kv)" "\<not> absent_or_expired kv now key"
  by (cases "store kv key") (auto simp: kv_get_def absent_or_expired_def)

lemma kv_get_later:
  assumes "fst (kv_get kv now key) = Some v"
  shows "kv_get kv t key =
     (if absent_or_expired kv t key then (None, snd (kv_get kv t key)) else (Some v, kv))"
  using assms
  by (auto simp: kv_get_def absent_or_expired_def split: option.splits if_splits)

lemma authentication_entry_expiry:
  assumes "getAuthenticationOptions URL fresh t0 kv0 origin sid = (Inr opts, kvi)"
    and "store kv (authentication_key sid) = store kvi (authentication_key sid)"
  shows "absent_or_expired kv t (authentication_key sid) = (t0 + 5 * 60 * 1000 < t)"
  using assms
  by (auto simp: getAuthenticationOptions_def Let_def kv_set_def absent_or_expired_def expired_def
        split: option.splits)

subsection \<open>The repository\<close>

lemma find_id_map:
  "find (\<lambda>p. id_pk p = i)
        (map (\<lambda>p. if id_pk p = j then p\<lparr>counter_pk := c, lastUsed := l\<rparr> else p) ps)
     = map_option (\<lambda>p. if id_pk p = j then p\<lparr>counter_pk := c, lastUsed := l\<rparr> else p)
         (find (\<lambda>p. id_pk p = i) ps)"
  by (induction ps) auto

lemma findFirst_db_update:
  "findFirst (db_update db j c t) i =
     map_option (\<lambda>(p, a). (if id_pk p = j then p\<lparr>counter_pk := c, lastUsed := Some t\<rparr> else p, a))
       (findFirst db i)"
  by (auto simp: findFirst_def db_update_def find_id_map split: option.splits)

lemma findFirst_id: "findFirst db i = Some (p, a) \<Longrightarrow> id_pk p = i \<and> p \<in> set (passkeyTable db)"
  by (auto simp: findFirst_def find_Some_iff in_set_conv_nth split: option.splits)

text \<open>
  \<open>trim\<close> on a label wrapped in a byte order mark, a no-break space, an ideographic
  space and a line feed.
\<close>

lemma trim_example:
  "trim [0xFEFF, 0x00A0, 0x0061, 0x0020, 0x0062, 0x3000, 0x000A] = [0x0061, 0x0020, 0x0062]"
  by (simp add: trim_def is_space_def)

lemma Number_small: "b < 2 ^ 53 \<Longrightarrow> Number b = b"
  by (simp add: Number_def)

subsection \<open>The verify functions once the challenge is found\<close>

lemma verifyRegistration_live:
  assumes "fst (kv_get kv now (registration_key (id_acct account))) = Some options"
    and "URL origin = Some u"
  shows "verifyRegistration URL V now db kv origin account name response =
     (case V (registration_request_of options u response) of
        Inl e \<Rightarrow> (Inl (VerifierError e), db, kv)
      | Inr result \<Rightarrow>
          (case (verified_reg result, registrationInfo result) of
             (True, Some info) \<Rightarrow>
               (case user_id_of options of
                  None \<Rightarrow> (Inl TypeError, db, kv)
                | Some uid \<Rightarrow>
                    (case db_insert db
                            \<lparr>id_pk = id_cred (credential info),
                             accountId = id_acct account,
                             name_pk = trim name,
                             publicKey_pk = publicKey_cred (credential info),
                             webauthnUserId = uid,
                             counter_pk = counter_cred (credential info),
                             deviceType = credentialDeviceType info,
                             backedUp = credentialBackedUp info,
                             transports_pk = transports_cred (credential info),
                             lastUsed = None,
                             created = now\<rparr> of
                       Inl err \<Rightarrow> (Inl err, db, kv)
                     | Inr db1 \<Rightarrow> (Inr result, db1, kv)))
           | _ \<Rightarrow> (Inr result, db, kv)))"
proof -
  from assms(1) have "kv_get kv now (registration_key (id_acct account)) = (Some options, kv)"
    using kv_get_live [OF assms(1)] by (simp add: prod_eq_iff)
  with assms(2) show ?thesis by (simp add: verifyRegistration_def)
qed

lemma verifyAuthentication_live:
  assumes "fst (kv_get kv now (authentication_key sid)) = Some options"
    and "findFirst db (id_ar assertion) = Some (pk, owner)"
    and "URL origin = Some u"
  shows "verifyAuthentication URL W now db kv origin sid assertion =
     (case W (authentication_request_of options u pk assertion) of
        Inl e \<Rightarrow> (Inl (VerifierError e), db, kv)
      | Inr result \<Rightarrow>
          (Inr (Some \<lparr>response_out = result, account_out = owner, passkey_out = pk\<rparr>),
           (if verified_auth result
            then db_update db (id_ar assertion) (newCounter (authenticationInfo result)) now
            else db), kv))"
proof -
  from assms(1) have "kv_get kv now (authentication_key sid) = (Some options, kv)"
    using kv_get_live [OF assms(1)] by (simp add: prod_eq_iff)
  with assms(2,3) show ?thesis by (simp add: verifyAuthentication_def Let_def split: sum.splits)
qed

subsection \<open>The scenario, step by step\<close>

lemma registering_entry:
  "fst (kv_get kv_registering t (registration_key ''alice'')) =
     Some (CreationOptions
       \<lparr>challenge_creation = ''challenge-1'',
        rp = \<lparr>name_rp = RP_NAME, id_rp = ''hackers.pub''\<rparr>,
        user = \<lparr>id_user = ''handle-1'', name_user = ''alice''\<rparr>,
        attestation = ''none'', excludeCredentials = []\<rparr>)"
  by (simp add: scenario_defs operation_defs Let_def)

lemma authenticating_entry:
  "fst (kv_get kv_authenticating t (authentication_key ''sess-1'')) =
     (if t \<le> 302000
      then Some (RequestOptions \<lparr>challenge_request = ''challenge-2'', rpId = ''hackers.pub''\<rparr>)
      else None)"
  by (simp add: scenario_defs operation_defs Let_def)

lemma site_URL_site: "site_URL site = Some \<lparr>origin_url = site, hostname = ''hackers.pub''\<rparr>"
  by (simp add: site_URL_def)

lemma findFirst_registered:
  "findFirst db_registered ''cred-1'' = Some (cred1_row, Some alice)"
  by (simp add: findFirst_def db_registered_def cred1_row_def alice_def)

lemma findFirst_used:
  "findFirst (db_used n t) ''cred-1'' = Some (cred1_row\<lparr>counter_pk := n, lastUsed := Some t\<rparr>, Some alice)"
  by (simp add: findFirst_def db_used_def cred1_row_def alice_def)

lemma db_update_registered: "db_update db_registered ''cred-1'' n t = db_used n t"
  by (simp add: db_update_def db_registered_def db_used_def cred1_row_def)

lemma db_update_used: "db_update (db_used m s) ''cred-1'' n t = db_used n t"
  by (simp add: db_update_def db_used_def cred1_row_def)

lemma plain_verifier_contract:
  "enforces_counter_contract plain_valid plain_authentication_verifier"
  by (simp add: enforces_counter_contract_def plain_authentication_verifier_def)

lemma scenario_registration:
  "verifyRegistration site_URL plain_registration_verifier 1000 db_init kv_registering site alice
     (utf16 ''  laptop '') cred1_registration =
   (Inr \<lparr>verified_reg = True,
         registrationInfo = Some
           \<lparr>credential = \<lparr>id_cred = ''cred-1'', publicKey_cred = [1, 2, 3], counter_cred = 0,
                          transports_cred = Some [''internal'']\<rparr>,
            credentialDeviceType = singleDevice, credentialBackedUp = False\<rparr>\<rparr>,
    db_registered, kv_registering)"
proof -
  have live: "fst (kv_get kv_registering 1000 (registration_key (id_acct alice))) =
     Some (CreationOptions
       \<lparr>challenge_creation = ''challenge-1'',
        rp = \<lparr>name_rp = RP_NAME, id_rp = ''hackers.pub''\<rparr>,
        user = \<lparr>id_user = ''handle-1'', name_user = ''alice''\<rparr>,
        attestation = ''none'', excludeCredentials = []\<rparr>)"
    using registering_entry [of 1000] by (simp add: alice_def)
  show ?thesis
    unfolding verifyRegistration_live [where URL = site_URL and origin = site, OF live site_URL_site]
    by (simp add: registration_request_of_def challenge_of_def user_id_of_def
        plain_registration_verifier_def cred1_registration_def db_insert_def db_init_def
        db_registered_def cred1_row_def trim_def is_space_def utf16_def alice_def)
qed

lemma scenario_authentication:
  assumes "t \<le> 302000"
  shows "verifyAuthentication site_URL plain_authentication_verifier t (db_used 0 t0)
     kv_authenticating site ''sess-1'' (cred1_assertion 0) =
   (Inr (Some \<lparr>response_out = \<lparr>verified_auth = True,
                  authenticationInfo = \<lparr>credentialID = ''cred-1'', newCounter = 0\<rparr>\<rparr>,
               account_out = Some alice,
               passkey_out = cred1_row\<lparr>counter_pk := 0, lastUsed := Some t0\<rparr>\<rparr>),
    db_used 0 t, kv_authenticating)"
proof -
  have live: "fst (kv_get kv_authenticating t (authentication_key ''sess-1'')) =
      Some (RequestOptions \<lparr>challenge_request = ''challenge-2'', rpId = ''hackers.pub''\<rparr>)"
    using assms by (simp add: authenticating_entry)
  have found: "findFirst (db_used 0 t0) (id_ar (cred1_assertion 0)) =
      Some (cred1_row\<lparr>counter_pk := 0, lastUsed := Some t0\<rparr>, Some alice)"
    by (simp add: findFirst_used cred1_assertion_def)
  have verdict: "plain_authentication_verifier
       (authentication_request_of
          (RequestOptions \<lparr>challenge_request = ''challenge-2'', rpId = ''hackers.pub''\<rparr>)
          \<lparr>origin_url = site, hostname = ''hackers.pub''\<rparr>
          (cred1_row\<lparr>counter_pk := 0, lastUsed := Some t0\<rparr>) (cred1_assertion 0)) =
      Inr \<lparr>verified_auth = True,
           authenticationInfo = \<lparr>credentialID = ''cred-1'', newCounter = 0\<rparr>\<rparr>"
    by (simp add: authentication_request_of_def challenge_of_def plain_authentication_verifier_def
        plain_valid_def counter_accepted_def Number_def cred1_row_def cred1_assertion_def)
  have id: "id_ar (cred1_assertion 0) = ''cred-1''" by (simp add: cred1_assertion_def)
  show ?thesis
    unfolding verifyAuthentication_live [where URL = site_URL and origin = site,
        OF live found site_URL_site] verdict
    by (simp add: id db_update_used)
qed

lemma authentication_request_valid:
  "plain_valid (authentication_request_of
      (RequestOptions \<lparr>challenge_request = ''challenge-2'', rpId = ''hackers.pub''\<rparr>)
      \<lparr>origin_url = site, hostname = ''hackers.pub''\<rparr>
      (cred1_row\<lparr>counter_pk := c, lastUsed := l\<rparr>) (cred1_assertion n))"
  by (simp add: plain_valid_def authentication_request_of_def challenge_of_def cred1_row_def
      cred1_assertion_def)

lemma assertion_id: "id_ar (cred1_assertion n) = ''cred-1''"
  by (simp add: cred1_assertion_def)

lemma assertion_counter: "counter_ar (cred1_assertion n) = n"
  by (simp add: cred1_assertion_def)

lemma live_at_3000:
  "fst (kv_get kv_authenticating 3000 (authentication_key ''sess-1'')) =
     Some (RequestOptions \<lparr>challenge_request = ''challenge-2'', rpId = ''hackers.pub''\<rparr>)"
  by (simp add: authenticating_entry)

lemma findFirst_two:
  "findFirst (db_two n l) ''cred-1'' = Some (cred1_row\<lparr>counter_pk := n, lastUsed := l\<rparr>, Some alice)"
  by (simp add: findFirst_def db_two_def cred1_row_def cred2_row_def alice_def)

lemma db_update_two: "db_update (db_two m l) ''cred-1'' n t = db_two n (Some t)"
  by (simp add: db_update_def db_two_def cred1_row_def cred2_row_def)

lemma db_insert_fresh: "db_insert db row = Inr db' \<Longrightarrow> id_pk row \<notin> id_pk ` set (passkeyTable db)"
  by (auto simp: db_insert_def split: if_splits)

lemma verifyRegistration_inserts:
  assumes "verifyRegistration URL V now db kv origin account name response = (Inr r, db', kv')"
    and "verified_reg r" and "registrationInfo r = Some info"
  shows "\<exists>row. db_insert db row = Inr db' \<and> id_pk row = id_cred (credential info)
           \<and> publicKey_pk row = publicKey_cred (credential info)
           \<and> accountId row = id_acct account
           \<and> counter_pk row = counter_cred (credential info)"
  using assms
  by (auto simp: verifyRegistration_def split: prod.splits option.splits sum.splits bool.splits)

lemma registration_entry_no_ttl:
  assumes "URL origin = Some u" and "ttl_default kv = None"
  shows "\<exists>options kv'.
     getRegistrationOptions URL fresh now kv origin account = (Inr options, kv')
     \<and> store kv' (registration_key (id_acct account)) =
          Some \<lparr>value_kv = CreationOptions options, expires = None\<rparr>
     \<and> (\<forall>t. fst (kv_get kv' t (registration_key (id_acct account))) = Some (CreationOptions options))"
  using assms
  by (auto simp: getRegistrationOptions_def Let_def kv_set_def kv_get_def expired_def)

lemma scenario_first_authentication:
  "verifyAuthentication site_URL plain_authentication_verifier 3000 db_registered
     kv_authenticating site ''sess-1'' (cred1_assertion 0) =
   (Inr (Some \<lparr>response_out = \<lparr>verified_auth = True,
                  authenticationInfo = \<lparr>credentialID = ''cred-1'', newCounter = 0\<rparr>\<rparr>,
               account_out = Some alice, passkey_out = cred1_row\<rparr>),
    db_used 0 3000, kv_authenticating)"
proof -
  have found: "findFirst db_registered (id_ar (cred1_assertion 0)) = Some (cred1_row, Some alice)"
    by (simp add: findFirst_registered assertion_id)
  have verdict: "plain_authentication_verifier
       (authentication_request_of
          (RequestOptions \<lparr>challenge_request = ''challenge-2'', rpId = ''hackers.pub''\<rparr>)
          \<lparr>origin_url = site, hostname = ''hackers.pub''\<rparr> cred1_row (cred1_assertion 0)) =
      Inr \<lparr>verified_auth = True,
           authenticationInfo = \<lparr>credentialID = ''cred-1'', newCounter = 0\<rparr>\<rparr>"
    by (simp add: authentication_request_of_def challenge_of_def plain_authentication_verifier_def
        plain_valid_def counter_accepted_def Number_def cred1_row_def cred1_assertion_def)
  show ?thesis
    unfolding verifyAuthentication_live [where URL = site_URL and origin = site,
        OF live_at_3000 found site_URL_site] verdict
    by (simp add: assertion_id db_update_registered)
qed

lemma scenario_second_registration:
  "fst (verifyRegistration site_URL plain_registration_verifier 5000 db_registered kv_registering
     site alice (utf16 ''  laptop '') cred1_registration) = Inl DuplicateCredential"
proof -
  have live: "fst (kv_get kv_registering 5000 (registration_key (id_acct alice))) =
     Some (CreationOptions
       \<lparr>challenge_creation = ''challenge-1'',
        rp = \<lparr>name_rp = RP_NAME, id_rp = ''hackers.pub''\<rparr>,
        user = \<lparr>id_user = ''handle-1'', name_user = ''alice''\<rparr>,
        attestation = ''none'', excludeCredentials = []\<rparr>)"
    using registering_entry [of 5000] by (simp add: alice_def)
  show ?thesis
    unfolding verifyRegistration_live [where URL = site_URL and origin = site, OF live site_URL_site]
    by (simp add: registration_request_of_def challenge_of_def user_id_of_def
        plain_registration_verifier_def cred1_registration_def db_insert_def
        db_registered_def cred1_row_def)
qed

lemma scenario_unverified_authentication:
  "verifyAuthentication site_URL rejecting_verifier 3000 db_registered kv_authenticating site
      ''sess-1'' (cred1_assertion 7) =
     (Inr (Some \<lparr>response_out = \<lparr>verified_auth = False,
                    authenticationInfo = \<lparr>credentialID = ''cred-1'', newCounter = 7\<rparr>\<rparr>,
                 account_out = Some alice, passkey_out = cred1_row\<rparr>),
      db_registered, kv_authenticating)"
proof -
  have found: "findFirst db_registered (id_ar (cred1_assertion 7)) = Some (cred1_row, Some alice)"
    by (simp add: assertion_id findFirst_registered)
  show ?thesis
    unfolding verifyAuthentication_live [where URL = site_URL and origin = site,
        OF live_at_3000 found site_URL_site]
    by (simp add: rejecting_verifier_def authentication_request_of_def cred1_assertion_def)
qed

lemma scenario_again:
  "getRegistrationOptions site_URL (''challenge-3'', ''handle-1'') 6000 kv_authenticating site
     alice_registered = (Inr options_again, kv_again)"
  by (simp add: kv_again_def getRegistrationOptions_def site_URL_site Let_def
      generateRegistrationOptions_def alice_registered_def cred1_row_def options_again_def)

lemma again_entry:
  "fst (kv_get kv_again t (registration_key ''alice'')) = Some (CreationOptions options_again)"
  by (simp add: kv_again_def getRegistrationOptions_def site_URL_site Let_def
      generateRegistrationOptions_def alice_registered_def cred1_row_def options_again_def
      kv_set_def kv_get_def expired_def kv_authenticating_def getAuthenticationOptions_def
      kv_registering_def kv_init_def alice_new_def)

lemma scenario_third_registration:
  "registered (fst (verifyRegistration site_URL plain_registration_verifier 7000 db_registered
     kv_again site alice (utf16 ''key'') cred3_registration))
   \<and> (\<exists>r db' kv'. verifyRegistration site_URL plain_registration_verifier 7000 db_registered
     kv_again site alice (utf16 ''key'') cred3_registration = (Inr r, db', kv') \<and> verified_reg r
     \<and> map_option (id_cred \<circ> credential) (registrationInfo r) = Some ''cred-3'')"
proof -
  have live: "fst (kv_get kv_again 7000 (registration_key (id_acct alice))) =
     Some (CreationOptions options_again)"
    using again_entry [of 7000] by (simp add: alice_def)
  show ?thesis
    unfolding verifyRegistration_live [where URL = site_URL and origin = site, OF live site_URL_site]
    by (simp add: registration_request_of_def challenge_of_def user_id_of_def options_again_def
        plain_registration_verifier_def cred3_registration_def db_insert_def
        db_registered_def cred1_row_def registered_def)
qed

subsection \<open>Where each outcome of the verify functions comes from\<close>

lemma verifyRegistration_absent:
  "absent_or_expired kv now (registration_key (id_acct account)) \<Longrightarrow>
   verifyRegistration URL V now db kv origin account name response =
     (Inl (MissingChallenge (id_acct account)), db,
      snd (kv_get kv now (registration_key (id_acct account))))"
  by (cases rule: kv_get_cases [of kv now "registration_key (id_acct account)"])
     (simp_all add: verifyRegistration_def)

lemma verifyAuthentication_absent:
  "absent_or_expired kv now (authentication_key sid) \<Longrightarrow>
   verifyAuthentication URL W now db kv origin sid assertion =
     (Inr None, db, snd (kv_get kv now (authentication_key sid)))"
  by (cases rule: kv_get_cases [of kv now "authentication_key sid"])
     (simp_all add: verifyAuthentication_def)

lemma verifyRegistration_returned:
  assumes "verifyRegistration URL V now db kv origin account name response = (Inr r, db', kv')"
  shows "kv' = kv
     \<and> (\<exists>options u. fst (kv_get kv now (registration_key (id_acct account))) = Some options
           \<and> URL origin = Some u \<and> V (registration_request_of options u response) = Inr r)"
  using assms
  by (cases rule: kv_get_cases [of kv now "registration_key (id_acct account)"])
     (auto simp: verifyRegistration_def split: option.splits sum.splits bool.splits)

lemma verifyAuthentication_returned:
  assumes "verifyAuthentication URL W now db kv origin sid assertion = (Inr (Some out), db', kv')"
  shows "kv' = kv
     \<and> findFirst db (id_ar assertion) = Some (passkey_out out, account_out out)
     \<and> db' = (if verified_auth (response_out out)
              then db_update db (id_ar assertion) (newCounter (authenticationInfo (response_out out))) now
              else db)
     \<and> (\<exists>options u. fst (kv_get kv now (authentication_key sid)) = Some options
           \<and> URL origin = Some u
           \<and> W (authentication_request_of options u (passkey_out out) assertion) = Inr (response_out out))"
  using assms
  by (cases rule: kv_get_cases [of kv now "authentication_key sid"])
     (auto simp: verifyAuthentication_def Let_def split: option.splits sum.splits prod.splits)

lemma verifyRegistration_thrown:
  assumes "verifyRegistration URL V now db kv origin account name response = (Inl e, db', kv')"
  shows "(e = MissingChallenge (id_acct account)
            \<and> absent_or_expired kv now (registration_key (id_acct account)))
       \<or> (\<exists>options. fst (kv_get kv now (registration_key (id_acct account))) = Some options
            \<and> e = InvalidURL \<and> URL origin = None)
       \<or> (\<exists>options u v. fst (kv_get kv now (registration_key (id_acct account))) = Some options
            \<and> URL origin = Some u
            \<and> V (registration_request_of options u response) = Inl v \<and> e = VerifierError v)
       \<or> (\<exists>options u r info.
            fst (kv_get kv now (registration_key (id_acct account))) = Some options
            \<and> URL origin = Some u
            \<and> V (registration_request_of options u response) = Inr r
            \<and> verified_reg r \<and> registrationInfo r = Some info
            \<and> (e = TypeError \<and> user_id_of options = None
                \<or> e = DuplicateCredential
                  \<and> id_cred (credential info) \<in> id_pk ` set (passkeyTable db)))"
proof (cases rule: kv_get_cases [of kv now "registration_key (id_acct account)"])
  case (absent kv1)
  with assms show ?thesis by (simp add: verifyRegistration_def)
next
  case (live options)
  then have l: "fst (kv_get kv now (registration_key (id_acct account))) = Some options" by simp
  show ?thesis
  proof (cases "URL origin")
    case None
    with assms live show ?thesis by (simp add: verifyRegistration_def)
  next
    case (Some u)
    from assms show ?thesis
      unfolding verifyRegistration_live [where URL = URL and origin = origin, OF l Some]
      using l Some
      by (auto simp: db_insert_def split: sum.splits option.splits bool.splits if_splits)
  qed
qed

lemma verifyAuthentication_thrown:
  assumes "verifyAuthentication URL W now db kv origin sid assertion = (Inl e, db', kv')"
  shows "\<exists>options pk owner.
           fst (kv_get kv now (authentication_key sid)) = Some options
           \<and> findFirst db (id_ar assertion) = Some (pk, owner)
           \<and> (e = InvalidURL \<and> URL origin = None
               \<or> (\<exists>u v. URL origin = Some u
                     \<and> W (authentication_request_of options u pk assertion) = Inl v
                     \<and> e = VerifierError v))"
  using assms
  by (cases rule: kv_get_cases [of kv now "authentication_key sid"])
     (auto simp: verifyAuthentication_def Let_def split: option.splits sum.splits prod.splits)

lemma verifyAuthentication_undefined:
  assumes "verifyAuthentication URL W now db kv origin sid assertion = (Inr None, db', kv')"
  shows "absent_or_expired kv now (authentication_key sid) \<or> findFirst db (id_ar assertion) = None"
  using assms
  by (cases rule: kv_get_cases [of kv now "authentication_key sid"])
     (auto simp: verifyAuthentication_def Let_def split: option.splits sum.splits prod.splits)

lemma scenario_issue:
  "getAuthenticationOptions site_URL ''challenge-2'' 2000 kv_registering site ''sess-1'' =
     (Inr \<lparr>challenge_request = ''challenge-2'', rpId = ''hackers.pub''\<rparr>, kv_authenticating)"
  by (simp add: kv_authenticating_def getAuthenticationOptions_def site_URL_site Let_def
      generateAuthenticationOptions_def)

lemma scenario_stale_registration:
  "verifyRegistration site_URL plain_registration_verifier 1000 db_init kv_registering site alice
      (utf16 ''laptop'') (cred1_registration\<lparr>challenge_rr := ''stale''\<rparr>) =
     (Inl (VerifierError VerificationFailed), db_init, kv_registering)"
proof -
  have live: "fst (kv_get kv_registering 1000 (registration_key (id_acct alice))) =
     Some (CreationOptions
       \<lparr>challenge_creation = ''challenge-1'',
        rp = \<lparr>name_rp = RP_NAME, id_rp = ''hackers.pub''\<rparr>,
        user = \<lparr>id_user = ''handle-1'', name_user = ''alice''\<rparr>,
        attestation = ''none'', excludeCredentials = []\<rparr>)"
    using registering_entry [of 1000] by (simp add: alice_def)
  show ?thesis
    unfolding verifyRegistration_live [where URL = site_URL and origin = site, OF live site_URL_site]
    by (simp add: registration_request_of_def challenge_of_def plain_registration_verifier_def
        cred1_registration_def)
qed

section \<open>Claims\<close>

text \<open>
  Claim C4. When the challenge entry of a submitted registration or authentication
  response is absent or expired, the ceremony fails for the missing challenge
  (\<open>verifyRegistration\<close> throws its missing-options error, \<open>verifyAuthentication\<close>
  returns \<open>undefined\<close>), whatever the Credential Verifier would have said: the verifier
  is not consulted, so the failure is never a verification failure, and the repository is
  left as it was.
\<close>
theorem missing_challenge_short_circuits:
  "(absent_or_expired kv now (registration_key (id_acct account)) \<longrightarrow>
      (\<forall>V. verifyRegistration URL V now db kv origin account name response =
             (Inl (MissingChallenge (id_acct account)), db,
              snd (kv_get kv now (registration_key (id_acct account))))))
   \<and> (absent_or_expired kv now (authentication_key sessionId) \<longrightarrow>
      (\<forall>W. verifyAuthentication URL W now db kv origin sessionId assertion =
             (Inr None, db, snd (kv_get kv now (authentication_key sessionId)))))"
proof (intro conjI impI allI)
  fix V
  assume "absent_or_expired kv now (registration_key (id_acct account))"
  then show "verifyRegistration URL V now db kv origin account name response =
             (Inl (MissingChallenge (id_acct account)), db,
              snd (kv_get kv now (registration_key (id_acct account))))"
    by (cases rule: kv_get_cases [of kv now "registration_key (id_acct account)"])
       (simp_all add: verifyRegistration_def)
next
  fix W
  assume "absent_or_expired kv now (authentication_key sessionId)"
  then show "verifyAuthentication URL W now db kv origin sessionId assertion =
             (Inr None, db, snd (kv_get kv now (authentication_key sessionId)))"
    by (cases rule: kv_get_cases [of kv now "authentication_key sessionId"])
       (simp_all add: verifyAuthentication_def)
qed

text \<open>The same at an empty store, and five minutes and a millisecond after issuing.\<close>

theorem missing_challenge_short_circuits_witness:
  "absent_or_expired kv_init 0 (registration_key (id_acct alice))
   \<and> fst (verifyRegistration site_URL plain_registration_verifier 0 db_init kv_init site alice
            (utf16 ''laptop'') cred1_registration) = Inl (MissingChallenge ''alice'')
   \<and> absent_or_expired kv_authenticating 302001 (authentication_key ''sess-1'')
   \<and> fst (verifyAuthentication site_URL plain_authentication_verifier 302001 db_registered
            kv_authenticating site ''sess-1'' (cred1_assertion 0)) = Inr None"
proof -
  have r: "absent_or_expired kv_init 0 (registration_key (id_acct alice))"
    by (simp add: absent_or_expired_def kv_init_def)
  have a: "absent_or_expired kv_authenticating 302001 (authentication_key ''sess-1'')"
    using authenticating_entry [of 302001] by (simp add: kv_get_absent)
  note reg = missing_challenge_short_circuits [where kv = kv_init and now = 0 and account = alice
      and URL = site_URL and db = db_init and origin = site and name = "utf16 ''laptop''"
      and response = cred1_registration, THEN conjunct1, rule_format, OF r]
  note auth = missing_challenge_short_circuits [where kv = kv_authenticating and now = 302001
      and sessionId = "''sess-1''" and URL = site_URL and db = db_registered and origin = site
      and assertion = "cred1_assertion 0", THEN conjunct2, rule_format, OF a]
  have "id_acct alice = ''alice''" by (simp add: alice_def)
  then show ?thesis using r a by (simp add: reg auth)
qed

text \<open>
  Claim C3. If the Credential Verifier reports failure for a submitted response, by
  throwing or by an unverified result, no store is mutated: \<open>verifyRegistration\<close> inserts
  no row and \<open>verifyAuthentication\<close> leaves every row, so also the credential's counter
  and last-used timestamp, as it was; the challenge store is unchanged as well.
\<close>
theorem verifier_failure_mutates_nothing:
  "(fst (kv_get kv now (registration_key (id_acct account))) = Some options \<and> URL origin = Some u
      \<and> registration_rejected (V (registration_request_of options u response)) \<longrightarrow>
      verifyRegistration URL V now db kv origin account name response =
        (case V (registration_request_of options u response) of
           Inl e \<Rightarrow> Inl (VerifierError e) | Inr r \<Rightarrow> Inr r, db, kv))
   \<and> (fst (kv_get kv now (authentication_key sid)) = Some aoptions \<and> URL origin = Some u
      \<and> findFirst db (id_ar assertion) = Some (pk, owner)
      \<and> authentication_rejected (W (authentication_request_of aoptions u pk assertion)) \<longrightarrow>
      verifyAuthentication URL W now db kv origin sid assertion =
        (case W (authentication_request_of aoptions u pk assertion) of
           Inl e \<Rightarrow> Inl (VerifierError e)
         | Inr r \<Rightarrow> Inr (Some \<lparr>response_out = r, account_out = owner, passkey_out = pk\<rparr>),
         db, kv))"
  by (auto simp: verifyRegistration_live verifyAuthentication_live registration_rejected_def
        authentication_rejected_def split: sum.splits)

text \<open>A stale challenge makes the verifier throw; a verifier may also answer ``unverified''.\<close>

theorem verifier_failure_mutates_nothing_witness:
  "verifyRegistration site_URL plain_registration_verifier 1000 db_init kv_registering site alice
      (utf16 ''laptop'') (cred1_registration\<lparr>challenge_rr := ''stale''\<rparr>) =
     (Inl (VerifierError VerificationFailed), db_init, kv_registering)
   \<and> verifyAuthentication site_URL rejecting_verifier 3000 db_registered kv_authenticating site
      ''sess-1'' (cred1_assertion 7) =
     (Inr (Some \<lparr>response_out = \<lparr>verified_auth = False,
                    authenticationInfo = \<lparr>credentialID = ''cred-1'', newCounter = 7\<rparr>\<rparr>,
                 account_out = Some alice, passkey_out = cred1_row\<rparr>),
      db_registered, kv_authenticating)"
proof -
  let ?c = "CreationOptions
       \<lparr>challenge_creation = ''challenge-1'',
        rp = \<lparr>name_rp = RP_NAME, id_rp = ''hackers.pub''\<rparr>,
        user = \<lparr>id_user = ''handle-1'', name_user = ''alice''\<rparr>,
        attestation = ''none'', excludeCredentials = []\<rparr>"
  let ?r = "RequestOptions \<lparr>challenge_request = ''challenge-2'', rpId = ''hackers.pub''\<rparr>"
  let ?u = "\<lparr>origin_url = site, hostname = ''hackers.pub''\<rparr>"
  have live: "fst (kv_get kv_registering 1000 (registration_key (id_acct alice))) = Some ?c"
    using registering_entry [of 1000] by (simp add: alice_def)
  have thrown: "plain_registration_verifier
       (registration_request_of ?c ?u (cred1_registration\<lparr>challenge_rr := ''stale''\<rparr>)) =
       Inl VerificationFailed"
    by (simp add: plain_registration_verifier_def registration_request_of_def challenge_of_def
        cred1_registration_def)
  have unverified: "rejecting_verifier (authentication_request_of ?r ?u cred1_row (cred1_assertion 7)) =
       Inr \<lparr>verified_auth = False,
            authenticationInfo = \<lparr>credentialID = ''cred-1'', newCounter = 7\<rparr>\<rparr>"
    by (simp add: rejecting_verifier_def authentication_request_of_def cred1_assertion_def)
  have found: "findFirst db_registered (id_ar (cred1_assertion 7)) = Some (cred1_row, Some alice)"
    by (simp add: assertion_id findFirst_registered)
  note reg = verifier_failure_mutates_nothing [where kv = kv_registering and now = 1000
      and account = alice and options = ?c and URL = site_URL and origin = site and u = ?u
      and V = plain_registration_verifier
      and response = "cred1_registration\<lparr>challenge_rr := ''stale''\<rparr>" and db = db_init
      and name = "utf16 ''laptop''", THEN conjunct1, rule_format]
  note auth = verifier_failure_mutates_nothing [where kv = kv_authenticating and now = 3000
      and sid = "''sess-1''" and aoptions = ?r and URL = site_URL and origin = site and u = ?u
      and db = db_registered and assertion = "cred1_assertion 7" and pk = cred1_row
      and owner = "Some alice" and W = rejecting_verifier, THEN conjunct2, rule_format]
  have "verifyRegistration site_URL plain_registration_verifier 1000 db_init kv_registering site alice
      (utf16 ''laptop'') (cred1_registration\<lparr>challenge_rr := ''stale''\<rparr>) =
     (Inl (VerifierError VerificationFailed), db_init, kv_registering)"
    using reg live site_URL_site thrown by (simp add: registration_rejected_def)
  moreover have "verifyAuthentication site_URL rejecting_verifier 3000 db_registered
      kv_authenticating site ''sess-1'' (cred1_assertion 7) =
     (Inr (Some \<lparr>response_out = \<lparr>verified_auth = False,
                    authenticationInfo = \<lparr>credentialID = ''cred-1'', newCounter = 7\<rparr>\<rparr>,
                 account_out = Some alice, passkey_out = cred1_row\<rparr>),
      db_registered, kv_authenticating)"
    using auth live_at_3000 site_URL_site found unverified by (simp add: authentication_rejected_def)
  ultimately show ?thesis by simp
qed

text \<open>
  Claim C5, as stated: an authentication response naming a credential id that is not in
  the repository fails with \<open>UnknownCredential\<close>, a category distinct from
  \<open>MissingChallenge\<close>. The source returns \<open>undefined\<close> in both cases: with a live
  challenge and an unknown credential the outcome is the very value returned for a missing
  challenge.
\<close>
theorem unknown_credential_counterexample:
  "fst (verifyAuthentication site_URL plain_authentication_verifier 3000 db_init kv_authenticating
          site ''sess-1'' (cred1_assertion 0)) = Inr None
   \<and> fst (verifyAuthentication site_URL plain_authentication_verifier 3000 db_init kv_init
          site ''sess-1'' (cred1_assertion 0)) = Inr None
   \<and> \<not> absent_or_expired kv_authenticating 3000 (authentication_key ''sess-1'')
   \<and> findFirst db_init (id_ar (cred1_assertion 0)) = None
   \<and> absent_or_expired kv_init 3000 (authentication_key ''sess-1'')"
proof -
  have live: "\<not> absent_or_expired kv_authenticating 3000 (authentication_key ''sess-1'')"
    using live_at_3000 kv_get_absent [of kv_authenticating 3000 "authentication_key ''sess-1''"]
    by simp
  have unknown: "findFirst db_init (id_ar (cred1_assertion 0)) = None"
    by (simp add: findFirst_def db_init_def)
  have absent: "absent_or_expired kv_init 3000 (authentication_key ''sess-1'')"
    by (simp add: absent_or_expired_def kv_init_def)
  have "kv_get kv_authenticating 3000 (authentication_key ''sess-1'') =
      (Some (RequestOptions \<lparr>challenge_request = ''challenge-2'', rpId = ''hackers.pub''\<rparr>),
       kv_authenticating)"
    using live_at_3000 kv_get_live [OF live_at_3000] by (simp add: prod_eq_iff)
  then have one: "fst (verifyAuthentication site_URL plain_authentication_verifier 3000 db_init
      kv_authenticating site ''sess-1'' (cred1_assertion 0)) = Inr None"
    using unknown by (simp add: verifyAuthentication_def)
  have "kv_get kv_init 3000 (authentication_key ''sess-1'') = (None, kv_init)"
    by (simp add: kv_get_def kv_init_def)
  then have two: "fst (verifyAuthentication site_URL plain_authentication_verifier 3000 db_init
      kv_init site ''sess-1'' (cred1_assertion 0)) = Inr None"
    by (simp add: verifyAuthentication_def)
  show ?thesis using one two live unknown absent by simp
qed

text \<open>
  Claim C5, amended. For every authentication verify call whose challenge is live and
  whose response names a credential id not present in the repository, the call fails by
  returning \<open>undefined\<close>, the same outcome as for a missing challenge, without consulting
  the verifier, and no store is mutated.
\<close>
theorem unknown_credential_is_undefined:
  assumes "fst (kv_get kv now (authentication_key sid)) = Some options"
    and "findFirst db (id_ar assertion) = None"
  shows "verifyAuthentication URL W now db kv origin sid assertion = (Inr None, db, kv)"
proof -
  have "kv_get kv now (authentication_key sid) = (Some options, kv)"
    using assms(1) kv_get_live [OF assms(1)] by (simp add: prod_eq_iff)
  with assms(2) show ?thesis by (simp add: verifyAuthentication_def)
qed

theorem unknown_credential_is_undefined_witness:
  "fst (kv_get kv_authenticating 3000 (authentication_key ''sess-1'')) =
     Some (RequestOptions \<lparr>challenge_request = ''challenge-2'', rpId = ''hackers.pub''\<rparr>)
   \<and> findFirst db_init (id_ar (cred1_assertion 0)) = None
   \<and> verifyAuthentication site_URL plain_authentication_verifier 3000 db_init kv_authenticating
        site ''sess-1'' (cred1_assertion 0) = (Inr None, db_init, kv_authenticating)"
proof -
  have unknown: "findFirst db_init (id_ar (cred1_assertion 0)) = None"
    by (simp add: findFirst_def db_init_def)
  from unknown_credential_is_undefined [where URL = site_URL and origin = site
      and W = plain_authentication_verifier, OF live_at_3000 unknown] live_at_3000 unknown
  show ?thesis by simp
qed

text \<open>
  Claim C6. Every call that issues authentication options stores the options, challenge
  included, under the key \<open>passkey/authentication/<session id>\<close> with a time-to-live of
  exactly \<open>5 * 60 * 1000\<close> milliseconds: the entry is returned up to that age and treated
  as absent afterwards.
\<close>
theorem authentication_challenge_ttl:
  assumes "URL origin = Some u"
  shows "\<exists>options kv'.
     getAuthenticationOptions URL fresh now kv origin sessionId = (Inr options, kv')
     \<and> store kv' (''passkey/authentication/'' @ sessionId) =
          Some \<lparr>value_kv = RequestOptions options, expires = Some (now + 5 * 60 * 1000)\<rparr>
     \<and> (\<forall>t. fst (kv_get kv' t (''passkey/authentication/'' @ sessionId)) =
              (if t \<le> now + 5 * 60 * 1000 then Some (RequestOptions options) else None))"
  using assms
  by (auto simp: getAuthenticationOptions_def Let_def kv_set_def kv_get_def expired_def
        authentication_key_def KV_NAMESPACE_def)

theorem authentication_challenge_ttl_witness:
  "site_URL site = Some \<lparr>origin_url = site, hostname = ''hackers.pub''\<rparr>
   \<and> expires (the (store kv_authenticating ''passkey/authentication/sess-1'')) = Some 302000
   \<and> fst (kv_get kv_authenticating 302000 ''passkey/authentication/sess-1'') =
        Some (RequestOptions \<lparr>challenge_request = ''challenge-2'', rpId = ''hackers.pub''\<rparr>)
   \<and> fst (kv_get kv_authenticating 302001 ''passkey/authentication/sess-1'') = None"
proof -
  from authentication_challenge_ttl [where URL = site_URL and origin = site, OF site_URL_site,
      of "''challenge-2''" 2000 kv_registering "''sess-1''"]
  obtain options kv' where
    call: "getAuthenticationOptions site_URL ''challenge-2'' 2000 kv_registering site ''sess-1'' =
        (Inr options, kv')"
    and entry: "store kv' (''passkey/authentication/'' @ ''sess-1'') =
        Some \<lparr>value_kv = RequestOptions options, expires = Some (2000 + 5 * 60 * 1000)\<rparr>"
    and get: "\<And>t. fst (kv_get kv' t (''passkey/authentication/'' @ ''sess-1'')) =
        (if t \<le> 2000 + 5 * 60 * 1000 then Some (RequestOptions options) else None)"
    by blast
  from call have kv': "kv' = kv_authenticating" by (simp add: kv_authenticating_def)
  from call have options: "options = \<lparr>challenge_request = ''challenge-2'', rpId = ''hackers.pub''\<rparr>"
    by (simp add: getAuthenticationOptions_def site_URL_site generateAuthenticationOptions_def
        Let_def)
  show ?thesis using entry get [of 302000] get [of 302001] site_URL_site
    by (simp add: kv' options)
qed

text \<open>
  Claim C10. On a successful authentication the repository update touches only the rows
  whose id is the response's credential id and changes only their counter and last-used
  timestamp: id, owning account, public key, name, user handle, device type, backed-up
  flag, transports and creation time stay, every other row is unchanged, and so is the
  account table.
\<close>
theorem authentication_update_frame:
  assumes "verifyAuthentication URL W now db kv origin sid assertion = (Inr (Some out), db', kv')"
    and "verified_auth (response_out out)"
  shows "accountTable db' = accountTable db
     \<and> length (passkeyTable db') = length (passkeyTable db)
     \<and> (\<forall>i < length (passkeyTable db).
          (id_pk (passkeyTable db ! i) \<noteq> id_ar assertion \<longrightarrow>
             passkeyTable db' ! i = passkeyTable db ! i)
          \<and> (id_pk (passkeyTable db ! i) = id_ar assertion \<longrightarrow>
               counter_pk (passkeyTable db' ! i) = newCounter (authenticationInfo (response_out out))
             \<and> lastUsed (passkeyTable db' ! i) = Some now
             \<and> id_pk (passkeyTable db' ! i) = id_pk (passkeyTable db ! i)
             \<and> accountId (passkeyTable db' ! i) = accountId (passkeyTable db ! i)
             \<and> publicKey_pk (passkeyTable db' ! i) = publicKey_pk (passkeyTable db ! i)
             \<and> name_pk (passkeyTable db' ! i) = name_pk (passkeyTable db ! i)
             \<and> webauthnUserId (passkeyTable db' ! i) = webauthnUserId (passkeyTable db ! i)
             \<and> deviceType (passkeyTable db' ! i) = deviceType (passkeyTable db ! i)
             \<and> backedUp (passkeyTable db' ! i) = backedUp (passkeyTable db ! i)
             \<and> transports_pk (passkeyTable db' ! i) = transports_pk (passkeyTable db ! i)
             \<and> created (passkeyTable db' ! i) = created (passkeyTable db ! i)))"
proof -
  from assms have "db' = db_update db (id_ar assertion) (newCounter (authenticationInfo (response_out out))) now"
    by (auto simp: verifyAuthentication_def Let_def split: prod.splits option.splits sum.splits if_splits)
  then show ?thesis by (simp add: db_update_def)
qed

text \<open>With two rows: the other account's row is left alone, the matched row changes in two fields.\<close>

theorem authentication_update_frame_witness:
  "fst (snd (verifyAuthentication site_URL plain_authentication_verifier 3000 (db_two 5 None)
       kv_authenticating site ''sess-1'' (cred1_assertion 6))) = db_two 6 (Some 3000)
   \<and> passkeyTable (db_two 6 (Some 3000)) ! 0 = passkeyTable (db_two 5 None) ! 0
   \<and> counter_pk (passkeyTable (db_two 6 (Some 3000)) ! 1) = 6
   \<and> lastUsed (passkeyTable (db_two 6 (Some 3000)) ! 1) = Some 3000
   \<and> publicKey_pk (passkeyTable (db_two 6 (Some 3000)) ! 1) =
       publicKey_pk (passkeyTable (db_two 5 None) ! 1)
   \<and> created (passkeyTable (db_two 6 (Some 3000)) ! 1) = created (passkeyTable (db_two 5 None) ! 1)"
proof -
  let ?pk = "cred1_row\<lparr>counter_pk := 5, lastUsed := None\<rparr>"
  let ?r = "RequestOptions \<lparr>challenge_request = ''challenge-2'', rpId = ''hackers.pub''\<rparr>"
  let ?u = "\<lparr>origin_url = site, hostname = ''hackers.pub''\<rparr>"
  let ?out = "\<lparr>response_out = \<lparr>verified_auth = True,
                  authenticationInfo = \<lparr>credentialID = ''cred-1'', newCounter = 6\<rparr>\<rparr>,
               account_out = Some alice, passkey_out = ?pk\<rparr>"
  have found: "findFirst (db_two 5 None) (id_ar (cred1_assertion 6)) = Some (?pk, Some alice)"
    by (simp add: assertion_id findFirst_two)
  have verdict: "plain_authentication_verifier (authentication_request_of ?r ?u ?pk (cred1_assertion 6)) =
      Inr \<lparr>verified_auth = True,
           authenticationInfo = \<lparr>credentialID = ''cred-1'', newCounter = 6\<rparr>\<rparr>"
    by (simp add: authentication_request_of_def challenge_of_def plain_authentication_verifier_def
        plain_valid_def counter_accepted_def Number_def cred1_row_def cred1_assertion_def)
  have call: "verifyAuthentication site_URL plain_authentication_verifier 3000 (db_two 5 None)
       kv_authenticating site ''sess-1'' (cred1_assertion 6) =
       (Inr (Some ?out), db_two 6 (Some 3000), kv_authenticating)"
    unfolding verifyAuthentication_live [where URL = site_URL and origin = site,
        OF live_at_3000 found site_URL_site] verdict
    by (simp add: assertion_id db_update_two)
  have rows: "length (passkeyTable (db_two 5 None)) = 2"
    and ids: "id_pk (passkeyTable (db_two 5 None) ! 0) \<noteq> id_ar (cred1_assertion 6)"
      "id_pk (passkeyTable (db_two 5 None) ! 1) = id_ar (cred1_assertion 6)"
    by (simp_all add: db_two_def cred1_row_def cred2_row_def assertion_id)
  from authentication_update_frame [OF call] rows
  have frame: "\<forall>i<2. (id_pk (passkeyTable (db_two 5 None) ! i) \<noteq> id_ar (cred1_assertion 6) \<longrightarrow>
             passkeyTable (db_two 6 (Some 3000)) ! i = passkeyTable (db_two 5 None) ! i)
          \<and> (id_pk (passkeyTable (db_two 5 None) ! i) = id_ar (cred1_assertion 6) \<longrightarrow>
               counter_pk (passkeyTable (db_two 6 (Some 3000)) ! i) = 6
             \<and> lastUsed (passkeyTable (db_two 6 (Some 3000)) ! i) = Some 3000
             \<and> publicKey_pk (passkeyTable (db_two 6 (Some 3000)) ! i) =
                 publicKey_pk (passkeyTable (db_two 5 None) ! i)
             \<and> created (passkeyTable (db_two 6 (Some 3000)) ! i) =
                 created (passkeyTable (db_two 5 None) ! i))"
    by simp
  from frame [rule_format, of 0] frame [rule_format, of 1] ids call show ?thesis
    by simp
qed

lemma counter_rule:
  assumes contract: "enforces_counter_contract valid W"
    and live: "fst (kv_get kv now (authentication_key sid)) = Some options"
    and found: "findFirst db (id_ar assertion) = Some (pk, owner)"
    and url: "URL origin = Some u"
    and valid: "valid (authentication_request_of options u pk assertion)"
    and small: "counter_pk pk < 2 ^ 53"
  shows "verifyAuthentication URL W now db kv origin sid assertion =
     (if counter_accepted (counter_pk pk) (counter_ar assertion)
      then (Inr (Some \<lparr>response_out = projr (W (authentication_request_of options u pk assertion)),
                       account_out = owner, passkey_out = pk\<rparr>),
            db_update db (id_ar assertion) (counter_ar assertion) now, kv)
      else (Inl (VerifierError PossibleCloneDetected), db, kv))"
    and "counter_accepted (counter_pk pk) (counter_ar assertion) \<Longrightarrow>
           verified_auth (projr (W (authentication_request_of options u pk assertion)))"
proof -
  let ?req = "authentication_request_of options u pk assertion"
  have stored: "counter_cred (credential_aq ?req) = counter_pk pk"
    using small by (simp add: authentication_request_of_def Number_small)
  have reported: "counter_ar (response_aq ?req) = counter_ar assertion"
    by (simp add: authentication_request_of_def)
  from contract valid
  have rule: "if counter_accepted (counter_pk pk) (counter_ar assertion)
         then \<exists>r. W ?req = Inr r \<and> verified_auth r
                \<and> newCounter (authenticationInfo r) = counter_ar assertion
         else W ?req = Inl PossibleCloneDetected"
    unfolding enforces_counter_contract_def stored [symmetric] reported [symmetric] by blast
  show "verifyAuthentication URL W now db kv origin sid assertion =
     (if counter_accepted (counter_pk pk) (counter_ar assertion)
      then (Inr (Some \<lparr>response_out = projr (W ?req), account_out = owner, passkey_out = pk\<rparr>),
            db_update db (id_ar assertion) (counter_ar assertion) now, kv)
      else (Inl (VerifierError PossibleCloneDetected), db, kv))"
    using rule
    by (auto simp: verifyAuthentication_live [where URL = URL and origin = origin, OF live found url]
          split: if_splits)
  show "counter_accepted (counter_pk pk) (counter_ar assertion) \<Longrightarrow> verified_auth (projr (W ?req))"
    using rule by auto
qed

text \<open>
  Claim C2. For an authentication verify call with a live challenge, a known credential
  with stored counter \<open>c\<close> and a response reporting counter \<open>n\<close> that passes the verifier's
  other checks, under the hypothesis that the verifier enforces its counter contract:
  if \<open>c = 5\<close> and \<open>n = 6\<close> the call succeeds and the stored counter becomes 6; if \<open>c = 5\<close>
  and \<open>n \<le> 5\<close> the call fails with \<open>PossibleCloneDetected\<close> and the repository is
  unchanged; if \<open>c = 0\<close> and \<open>n = 0\<close> the call succeeds.
\<close>
theorem counter_monotonicity:
  assumes "enforces_counter_contract valid W"
    and "fst (kv_get kv now (authentication_key sid)) = Some options"
    and "findFirst db (id_ar assertion) = Some (pk, owner)"
    and "URL origin = Some u"
    and "valid (authentication_request_of options u pk assertion)"
    and "verifyAuthentication URL W now db kv origin sid assertion = (res, db', kv')"
  shows "(counter_pk pk = 5 \<and> counter_ar assertion = 6 \<longrightarrow>
            authenticated res
            \<and> findFirst db' (id_ar assertion) =
                Some (pk\<lparr>counter_pk := 6, lastUsed := Some now\<rparr>, owner))
     \<and> (counter_pk pk = 5 \<and> counter_ar assertion \<le> 5 \<longrightarrow>
            res = Inl (VerifierError PossibleCloneDetected) \<and> db' = db)
     \<and> (counter_pk pk = 0 \<and> counter_ar assertion = 0 \<longrightarrow> authenticated res)"
proof -
  note rule = counter_rule [where valid = valid and URL = URL and origin = origin, OF assms(1-5)]
  have id: "id_pk pk = id_ar assertion"
    using findFirst_id [OF assms(3)] by simp
  show ?thesis
  proof (intro conjI impI)
    assume c: "counter_pk pk = 5 \<and> counter_ar assertion = 6"
    then have small: "counter_pk pk < 2 ^ 53"
      and acc: "counter_accepted (counter_pk pk) (counter_ar assertion)"
      by (simp_all add: counter_accepted_def)
    from rule [OF small] acc assms(6)
    show "authenticated res" by (auto simp: authenticated_def)
    from rule(1) [OF small] acc assms(6) c
    have "db' = db_update db (id_ar assertion) 6 now" by simp
    then show "findFirst db' (id_ar assertion) =
        Some (pk\<lparr>counter_pk := 6, lastUsed := Some now\<rparr>, owner)"
      using assms(3) id by (simp add: findFirst_db_update)
  next
    assume c: "counter_pk pk = 5 \<and> counter_ar assertion \<le> 5"
    then have small: "counter_pk pk < 2 ^ 53"
      and acc: "\<not> counter_accepted (counter_pk pk) (counter_ar assertion)"
      by (simp_all add: counter_accepted_def)
    from rule(1) [OF small] acc assms(6)
    show "res = Inl (VerifierError PossibleCloneDetected)" and "db' = db" by simp_all
  next
    assume c: "counter_pk pk = 0 \<and> counter_ar assertion = 0"
    then have small: "counter_pk pk < 2 ^ 53"
      and acc: "counter_accepted (counter_pk pk) (counter_ar assertion)"
      by (simp_all add: counter_accepted_def)
    from rule [OF small] acc assms(6)
    show "authenticated res" by (auto simp: authenticated_def)
  qed
qed

theorem counter_monotonicity_witness:
  "enforces_counter_contract plain_valid plain_authentication_verifier
   \<and> authenticated (fst (verifyAuthentication site_URL plain_authentication_verifier 3000
            (db_two 5 None) kv_authenticating site ''sess-1'' (cred1_assertion 6)))
   \<and> findFirst (fst (snd (verifyAuthentication site_URL plain_authentication_verifier 3000
            (db_two 5 None) kv_authenticating site ''sess-1'' (cred1_assertion 6)))) ''cred-1'' =
        Some (cred1_row\<lparr>counter_pk := 6, lastUsed := Some 3000\<rparr>, Some alice)
   \<and> verifyAuthentication site_URL plain_authentication_verifier 3000 (db_two 5 None)
        kv_authenticating site ''sess-1'' (cred1_assertion 5) =
        (Inl (VerifierError PossibleCloneDetected), db_two 5 None, kv_authenticating)
   \<and> verifyAuthentication site_URL plain_authentication_verifier 3000 (db_two 5 None)
        kv_authenticating site ''sess-1'' (cred1_assertion 2) =
        (Inl (VerifierError PossibleCloneDetected), db_two 5 None, kv_authenticating)
   \<and> authenticated (fst (verifyAuthentication site_URL plain_authentication_verifier 3000
            (db_two 0 None) kv_authenticating site ''sess-1'' (cred1_assertion 0)))"
proof -
  let ?call = "\<lambda>c n. verifyAuthentication site_URL plain_authentication_verifier 3000
      (db_two c None) kv_authenticating site ''sess-1'' (cred1_assertion n)"
  have found: "findFirst (db_two c None) (id_ar (cred1_assertion n)) =
      Some (cred1_row\<lparr>counter_pk := c, lastUsed := None\<rparr>, Some alice)" for c n
    by (simp add: assertion_id findFirst_two)
  have stored: "counter_pk (cred1_row\<lparr>counter_pk := c, lastUsed := None\<rparr>) = c" for c
    by simp
  note at = counter_monotonicity [where valid = plain_valid and URL = site_URL and origin = site,
      OF plain_verifier_contract live_at_3000 found site_URL_site authentication_request_valid]
  have six: "authenticated (fst (?call 5 6))
      \<and> findFirst (fst (snd (?call 5 6))) ''cred-1'' =
          Some (cred1_row\<lparr>counter_pk := 6, lastUsed := Some 3000\<rparr>, Some alice)"
  proof -
    obtain res db' kv' where call: "?call 5 6 = (res, db', kv')" by (rule prod_cases3)
    from at [OF call] show ?thesis
      by (auto simp: call assertion_id assertion_counter)
  qed
  have clone: "?call 5 n = (Inl (VerifierError PossibleCloneDetected), db_two 5 None, kv_authenticating)"
    if "n \<le> 5" for n
  proof -
    obtain res db' kv' where call: "?call 5 n = (res, db', kv')" by (rule prod_cases3)
    have "kv' = kv_authenticating"
      using call kv_get_live [OF live_at_3000]
      by (auto simp: verifyAuthentication_def Let_def split: prod.splits option.splits sum.splits)
    with at [OF call] that show ?thesis
      by (simp add: call assertion_counter)
  qed
  have zero: "authenticated (fst (?call 0 0))"
  proof -
    obtain res db' kv' where call: "?call 0 0 = (res, db', kv')" by (rule prod_cases3)
    from at [OF call] show ?thesis
      by (auto simp: call assertion_counter)
  qed
  show ?thesis using plain_verifier_contract six clone [of 5] clone [of 2] zero by simp
qed

text \<open>
  Claim C1, as stated: after a successful verification the stored challenge entry is
  consumed, so a second submission of the same response fails with \<open>MissingChallenge\<close>.
  Neither verify function writes to the store. In the scenario the assertion of \<open>cred-1\<close>
  (counter 0) is accepted at time 3000 and accepted again at time 4000, and the second
  submission of the registration response fails for the duplicate credential, not for a
  missing challenge.
\<close>
theorem replay_counterexample:
  "authenticated (fst (verifyAuthentication site_URL plain_authentication_verifier 3000
       db_registered kv_authenticating site ''sess-1'' (cred1_assertion 0)))
   \<and> snd (verifyAuthentication site_URL plain_authentication_verifier 3000
       db_registered kv_authenticating site ''sess-1'' (cred1_assertion 0)) =
       (db_used 0 3000, kv_authenticating)
   \<and> authenticated (fst (verifyAuthentication site_URL plain_authentication_verifier 4000
       (db_used 0 3000) kv_authenticating site ''sess-1'' (cred1_assertion 0)))
   \<and> registered (fst (verifyRegistration site_URL plain_registration_verifier 1000 db_init
       kv_registering site alice (utf16 ''  laptop '') cred1_registration))
   \<and> snd (verifyRegistration site_URL plain_registration_verifier 1000 db_init
       kv_registering site alice (utf16 ''  laptop '') cred1_registration) = (db_registered, kv_registering)
   \<and> fst (verifyRegistration site_URL plain_registration_verifier 5000 db_registered
       kv_registering site alice (utf16 ''  laptop '') cred1_registration) = Inl DuplicateCredential"
  by (simp add: scenario_first_authentication scenario_authentication scenario_registration
      scenario_second_registration authenticated_def registered_def)

text \<open>
  Claim C1, amended. For every ceremony, a successful verification only reads the stored
  challenge entry and leaves the store as it was: the entry is not consumed. A second
  submission of the same response, at any later time and to any verifier, fails for a
  missing challenge (the missing-options error of \<open>verifyRegistration\<close>, \<open>undefined\<close> from
  \<open>verifyAuthentication\<close>) if the entry is absent or expired by then. Otherwise it finds
  the same options, hands the verifier the same expected challenge (for authentication
  together with the row as the first submission updated it) and goes on from the
  verifier's verdict as a first submission does: an authentication that the verifier
  accepts again is accepted again, and a registration that stored a credential and gets
  the same verdict again fails with \<open>DuplicateCredential\<close>. An authentication entry as
  stored by \<open>getAuthenticationOptions\<close> at time \<open>t0\<close> is absent or expired exactly at the
  times later than \<open>t0 + 5 * 60 * 1000\<close>.
\<close>
theorem challenge_survives_verification:
  "(verifyRegistration URL V now db kv origin account name response = (Inr r, db', kv')
      \<and> verified_reg r \<longrightarrow>
      kv' = kv
      \<and> (\<exists>options u.
            fst (kv_get kv now (registration_key (id_acct account))) = Some options
            \<and> URL origin = Some u
            \<and> V (registration_request_of options u response) = Inr r
            \<and> (\<forall>t V'.
                 verifyRegistration URL V' t db' kv' origin account name response =
                   (if absent_or_expired kv t (registration_key (id_acct account))
                    then (Inl (MissingChallenge (id_acct account)), db',
                          snd (kv_get kv t (registration_key (id_acct account))))
                    else (case V' (registration_request_of options u response) of
                            Inl e \<Rightarrow> (Inl (VerifierError e), db', kv)
                          | Inr result \<Rightarrow>
                              (case (verified_reg result, registrationInfo result) of
                                 (True, Some info) \<Rightarrow>
                                   (case user_id_of options of
                                      None \<Rightarrow> (Inl TypeError, db', kv)
                                    | Some uid \<Rightarrow>
                                        (case db_insert db'
                                                \<lparr>id_pk = id_cred (credential info),
                                                 accountId = id_acct account,
                                                 name_pk = trim name,
                                                 publicKey_pk = publicKey_cred (credential info),
                                                 webauthnUserId = uid,
                                                 counter_pk = counter_cred (credential info),
                                                 deviceType = credentialDeviceType info,
                                                 backedUp = credentialBackedUp info,
                                                 transports_pk = transports_cred (credential info),
                                                 lastUsed = None,
                                                 created = t\<rparr> of
                                           Inl err \<Rightarrow> (Inl err, db', kv)
                                         | Inr db1 \<Rightarrow> (Inr result, db1, kv)))
                               | _ \<Rightarrow> (Inr result, db', kv)))))
            \<and> (\<forall>t. registrationInfo r \<noteq> None
                     \<and> \<not> absent_or_expired kv t (registration_key (id_acct account)) \<longrightarrow>
                   verifyRegistration URL V t db' kv' origin account name response =
                     (Inl DuplicateCredential, db', kv))))
   \<and> (verifyAuthentication URL W now db kv origin sid assertion = (Inr (Some out), adb', akv')
      \<and> verified_auth (response_out out) \<longrightarrow>
      akv' = kv
      \<and> (\<exists>options u.
            fst (kv_get kv now (authentication_key sid)) = Some options
            \<and> URL origin = Some u
            \<and> W (authentication_request_of options u (passkey_out out) assertion) =
                 Inr (response_out out)
            \<and> (\<forall>t W'.
                 verifyAuthentication URL W' t adb' akv' origin sid assertion =
                   (if absent_or_expired kv t (authentication_key sid)
                    then (Inr None, adb', snd (kv_get kv t (authentication_key sid)))
                    else (case W' (authentication_request_of options u
                                     ((passkey_out out)
                                        \<lparr>counter_pk := newCounter (authenticationInfo (response_out out)),
                                         lastUsed := Some now\<rparr>) assertion) of
                            Inl e \<Rightarrow> (Inl (VerifierError e), adb', kv)
                          | Inr result \<Rightarrow>
                              (Inr (Some \<lparr>response_out = result,
                                          account_out = account_out out,
                                          passkey_out = (passkey_out out)
                                            \<lparr>counter_pk := newCounter (authenticationInfo (response_out out)),
                                             lastUsed := Some now\<rparr>\<rparr>),
                               (if verified_auth result
                                then db_update adb' (id_ar assertion)
                                       (newCounter (authenticationInfo result)) t
                                else adb'), kv))))))
   \<and> (getAuthenticationOptions URL fresh t0 kv0 origin sid = (Inr opts, kvi)
      \<and> store kv (authentication_key sid) = store kvi (authentication_key sid) \<longrightarrow>
      (\<forall>t. absent_or_expired kv t (authentication_key sid) = (t0 + 5 * 60 * 1000 < t)))"
proof (intro conjI impI)
  assume h: "verifyRegistration URL V now db kv origin account name response = (Inr r, db', kv')
      \<and> verified_reg r"
  from verifyRegistration_returned [of URL V now db kv origin account name response r db' kv'] h
  obtain options u where kv: "kv' = kv"
    and live: "fst (kv_get kv now (registration_key (id_acct account))) = Some options"
    and url: "URL origin = Some u"
    and verdict: "V (registration_request_of options u response) = Inr r"
    by blast
  show "kv' = kv" by (rule kv)
  have again: "verifyRegistration URL V' t db' kv origin account name response =
      (if absent_or_expired kv t (registration_key (id_acct account))
       then (Inl (MissingChallenge (id_acct account)), db',
             snd (kv_get kv t (registration_key (id_acct account))))
       else (case V' (registration_request_of options u response) of
               Inl e \<Rightarrow> (Inl (VerifierError e), db', kv)
             | Inr result \<Rightarrow>
                 (case (verified_reg result, registrationInfo result) of
                    (True, Some info) \<Rightarrow>
                      (case user_id_of options of
                         None \<Rightarrow> (Inl TypeError, db', kv)
                       | Some uid \<Rightarrow>
                           (case db_insert db'
                                   \<lparr>id_pk = id_cred (credential info),
                                    accountId = id_acct account,
                                    name_pk = trim name,
                                    publicKey_pk = publicKey_cred (credential info),
                                    webauthnUserId = uid,
                                    counter_pk = counter_cred (credential info),
                                    deviceType = credentialDeviceType info,
                                    backedUp = credentialBackedUp info,
                                    transports_pk = transports_cred (credential info),
                                    lastUsed = None,
                                    created = t\<rparr> of
                              Inl err \<Rightarrow> (Inl err, db', kv)
                            | Inr db1 \<Rightarrow> (Inr result, db1, kv)))
                  | _ \<Rightarrow> (Inr result, db', kv))))" for t V'
  proof (cases "absent_or_expired kv t (registration_key (id_acct account))")
    case True
    then show ?thesis by (simp add: verifyRegistration_absent)
  next
    case False
    with kv_get_later [OF live, of t]
    have "fst (kv_get kv t (registration_key (id_acct account))) = Some options" by simp
    from verifyRegistration_live [where URL = URL and origin = origin, OF this url] False
    show ?thesis by simp
  qed
  have dup: "verifyRegistration URL V t db' kv origin account name response =
      (Inl DuplicateCredential, db', kv)"
    if "registrationInfo r \<noteq> None \<and> \<not> absent_or_expired kv t (registration_key (id_acct account))"
    for t
  proof -
    from that obtain info where info: "registrationInfo r = Some info" by auto
    from h kv live url verdict info
    obtain uid row where uid: "user_id_of options = Some uid"
      and ins: "db_insert db row = Inr db'" and row: "id_pk row = id_cred (credential info)"
      by (auto simp: verifyRegistration_live [where URL = URL and origin = origin, OF live url]
            split: option.splits sum.splits)
    from ins row have "id_cred (credential info) \<in> id_pk ` set (passkeyTable db')"
      by (auto simp: db_insert_def image_iff split: if_splits)
    with that h info uid verdict show ?thesis
      by (simp add: again db_insert_def)
  qed
  show "\<exists>options u.
      fst (kv_get kv now (registration_key (id_acct account))) = Some options
      \<and> URL origin = Some u
      \<and> V (registration_request_of options u response) = Inr r
      \<and> (\<forall>t V'.
           verifyRegistration URL V' t db' kv' origin account name response =
             (if absent_or_expired kv t (registration_key (id_acct account))
              then (Inl (MissingChallenge (id_acct account)), db',
                    snd (kv_get kv t (registration_key (id_acct account))))
              else (case V' (registration_request_of options u response) of
                      Inl e \<Rightarrow> (Inl (VerifierError e), db', kv)
                    | Inr result \<Rightarrow>
                        (case (verified_reg result, registrationInfo result) of
                           (True, Some info) \<Rightarrow>
                             (case user_id_of options of
                                None \<Rightarrow> (Inl TypeError, db', kv)
                              | Some uid \<Rightarrow>
                                  (case db_insert db'
                                          \<lparr>id_pk = id_cred (credential info),
                                           accountId = id_acct account,
                                           name_pk = trim name,
                                           publicKey_pk = publicKey_cred (credential info),
                                           webauthnUserId = uid,
                                           counter_pk = counter_cred (credential info),
                                           deviceType = credentialDeviceType info,
                                           backedUp = credentialBackedUp info,
                                           transports_pk = transports_cred (credential info),
                                           lastUsed = None,
                                           created = t\<rparr> of
                                     Inl err \<Rightarrow> (Inl err, db', kv)
                                   | Inr db1 \<Rightarrow> (Inr result, db1, kv)))
                         | _ \<Rightarrow> (Inr result, db', kv)))))
      \<and> (\<forall>t. registrationInfo r \<noteq> None
               \<and> \<not> absent_or_expired kv t (registration_key (id_acct account)) \<longrightarrow>
             verifyRegistration URL V t db' kv' origin account name response =
               (Inl DuplicateCredential, db', kv))"
    unfolding kv using live url verdict again dup by blast
next
  assume h: "verifyAuthentication URL W now db kv origin sid assertion = (Inr (Some out), adb', akv')
      \<and> verified_auth (response_out out)"
  let ?pk = "(passkey_out out)\<lparr>counter_pk := newCounter (authenticationInfo (response_out out)),
                lastUsed := Some now\<rparr>"
  from verifyAuthentication_returned [of URL W now db kv origin sid assertion out adb' akv'] h
  obtain options u where kv: "akv' = kv"
    and found: "findFirst db (id_ar assertion) = Some (passkey_out out, account_out out)"
    and db': "adb' = db_update db (id_ar assertion)
                (newCounter (authenticationInfo (response_out out))) now"
    and live: "fst (kv_get kv now (authentication_key sid)) = Some options"
    and url: "URL origin = Some u"
    and verdict: "W (authentication_request_of options u (passkey_out out) assertion) =
        Inr (response_out out)"
    by auto
  show "akv' = kv" by (rule kv)
  from found findFirst_id [OF found]
  have found': "findFirst adb' (id_ar assertion) = Some (?pk, account_out out)"
    by (simp add: db' findFirst_db_update)
  have again: "verifyAuthentication URL W' t adb' kv origin sid assertion =
      (if absent_or_expired kv t (authentication_key sid)
       then (Inr None, adb', snd (kv_get kv t (authentication_key sid)))
       else (case W' (authentication_request_of options u ?pk assertion) of
               Inl e \<Rightarrow> (Inl (VerifierError e), adb', kv)
             | Inr result \<Rightarrow>
                 (Inr (Some \<lparr>response_out = result, account_out = account_out out,
                             passkey_out = ?pk\<rparr>),
                  (if verified_auth result
                   then db_update adb' (id_ar assertion) (newCounter (authenticationInfo result)) t
                   else adb'), kv)))" for t W'
  proof (cases "absent_or_expired kv t (authentication_key sid)")
    case True
    then show ?thesis by (simp add: verifyAuthentication_absent)
  next
    case False
    with kv_get_later [OF live, of t]
    have "fst (kv_get kv t (authentication_key sid)) = Some options" by simp
    from verifyAuthentication_live [where URL = URL and origin = origin, OF this found' url] False
    show ?thesis by simp
  qed
  show "\<exists>options u.
      fst (kv_get kv now (authentication_key sid)) = Some options
      \<and> URL origin = Some u
      \<and> W (authentication_request_of options u (passkey_out out) assertion) =
           Inr (response_out out)
      \<and> (\<forall>t W'.
           verifyAuthentication URL W' t adb' akv' origin sid assertion =
             (if absent_or_expired kv t (authentication_key sid)
              then (Inr None, adb', snd (kv_get kv t (authentication_key sid)))
              else (case W' (authentication_request_of options u ?pk assertion) of
                      Inl e \<Rightarrow> (Inl (VerifierError e), adb', kv)
                    | Inr result \<Rightarrow>
                        (Inr (Some \<lparr>response_out = result,
                                    account_out = account_out out,
                                    passkey_out = ?pk\<rparr>),
                         (if verified_auth result
                          then db_update adb' (id_ar assertion)
                                 (newCounter (authenticationInfo result)) t
                          else adb'), kv))))"
    unfolding kv using live url verdict again by blast
next
  assume "getAuthenticationOptions URL fresh t0 kv0 origin sid = (Inr opts, kvi)
      \<and> store kv (authentication_key sid) = store kvi (authentication_key sid)"
  then show "\<forall>t. absent_or_expired kv t (authentication_key sid) = (t0 + 5 * 60 * 1000 < t)"
    using authentication_entry_expiry by blast
qed

text \<open>
  In the scenario: the replay after one second is accepted, the one after the five
  minutes is not, and the registration response sent again meets the duplicate credential.
\<close>

theorem challenge_survives_verification_witness:
  "verifyAuthentication site_URL plain_authentication_verifier 3000 db_registered
     kv_authenticating site ''sess-1'' (cred1_assertion 0) =
   (Inr (Some \<lparr>response_out = \<lparr>verified_auth = True,
                  authenticationInfo = \<lparr>credentialID = ''cred-1'', newCounter = 0\<rparr>\<rparr>,
               account_out = Some alice, passkey_out = cred1_row\<rparr>),
    db_used 0 3000, kv_authenticating)
   \<and> authenticated (fst (verifyAuthentication site_URL plain_authentication_verifier 4000
        (db_used 0 3000) kv_authenticating site ''sess-1'' (cred1_assertion 0)))
   \<and> fst (verifyAuthentication site_URL plain_authentication_verifier 302001 (db_used 0 3000)
        kv_authenticating site ''sess-1'' (cred1_assertion 0)) = Inr None
   \<and> verifyRegistration site_URL plain_registration_verifier 5000 db_registered
        kv_registering site alice (utf16 ''  laptop '') cred1_registration =
        (Inl DuplicateCredential, db_registered, kv_registering)
   \<and> \<not> absent_or_expired kv_authenticating 302000 (authentication_key ''sess-1'')
   \<and> absent_or_expired kv_authenticating 302001 (authentication_key ''sess-1'')"
proof -
  let ?r = "RequestOptions \<lparr>challenge_request = ''challenge-2'', rpId = ''hackers.pub''\<rparr>"
  let ?u = "\<lparr>origin_url = site, hostname = ''hackers.pub''\<rparr>"
  have expiry: "absent_or_expired kv_authenticating t (authentication_key ''sess-1'') = (302000 < t)"
    for t
    using challenge_survives_verification [THEN conjunct2, THEN conjunct2, rule_format,
        OF conjI [OF scenario_issue refl], of t]
    by simp
  let ?out = "\<lparr>response_out = \<lparr>verified_auth = True,
                  authenticationInfo = \<lparr>credentialID = ''cred-1'', newCounter = 0\<rparr>\<rparr>,
               account_out = Some alice, passkey_out = cred1_row\<rparr>"
  let ?pk = "(passkey_out ?out)\<lparr>counter_pk := newCounter (authenticationInfo (response_out ?out)),
                lastUsed := Some 3000\<rparr>"
  have first: "verified_auth (response_out ?out)" by simp
  from challenge_survives_verification [THEN conjunct2, THEN conjunct1, rule_format,
      OF conjI [OF scenario_first_authentication first] ]
  obtain options u where
    live: "fst (kv_get kv_authenticating 3000 (authentication_key ''sess-1'')) = Some options"
    and url: "site_URL site = Some u"
    and again: "\<And>t W'. verifyAuthentication site_URL W' t (db_used 0 3000) kv_authenticating site
        ''sess-1'' (cred1_assertion 0) =
        (if absent_or_expired kv_authenticating t (authentication_key ''sess-1'')
         then (Inr None, db_used 0 3000,
               snd (kv_get kv_authenticating t (authentication_key ''sess-1'')))
         else (case W' (authentication_request_of options u ?pk (cred1_assertion 0)) of
                 Inl e \<Rightarrow> (Inl (VerifierError e), db_used 0 3000, kv_authenticating)
               | Inr result \<Rightarrow>
                   (Inr (Some \<lparr>response_out = result, account_out = account_out ?out,
                               passkey_out = ?pk\<rparr>),
                    (if verified_auth result
                     then db_update (db_used 0 3000) (id_ar (cred1_assertion 0))
                            (newCounter (authenticationInfo result)) t
                     else db_used 0 3000), kv_authenticating)))"
    by blast
  from live url have options: "options = ?r" and u: "u = ?u"
    by (simp_all add: live_at_3000 site_URL_site)
  have verdict: "plain_authentication_verifier
       (authentication_request_of ?r ?u (cred1_row\<lparr>counter_pk := 0, lastUsed := Some 3000\<rparr>)
          (cred1_assertion 0)) =
      Inr \<lparr>verified_auth = True,
           authenticationInfo = \<lparr>credentialID = ''cred-1'', newCounter = 0\<rparr>\<rparr>"
    by (simp add: authentication_request_of_def challenge_of_def plain_authentication_verifier_def
        plain_valid_def counter_accepted_def Number_def cred1_row_def cred1_assertion_def)
  have replay: "authenticated (fst (verifyAuthentication site_URL plain_authentication_verifier 4000
        (db_used 0 3000) kv_authenticating site ''sess-1'' (cred1_assertion 0)))"
    by (simp add: again expiry options u verdict authenticated_def)
  have late: "fst (verifyAuthentication site_URL plain_authentication_verifier 302001 (db_used 0 3000)
        kv_authenticating site ''sess-1'' (cred1_assertion 0)) = Inr None"
    by (simp add: again expiry)
  have kept: "\<not> absent_or_expired kv_registering 5000 (registration_key (id_acct alice))"
    using registering_entry [of 5000]
      kv_get_absent [of kv_registering 5000 "registration_key ''alice''"] by (simp add: alice_def)
  from challenge_survives_verification [THEN conjunct1, rule_format,
      OF conjI [OF scenario_registration] ]
  have dup: "verifyRegistration site_URL plain_registration_verifier 5000 db_registered
        kv_registering site alice (utf16 ''  laptop '') cred1_registration =
        (Inl DuplicateCredential, db_registered, kv_registering)"
    using kept by auto
  show ?thesis
    using scenario_first_authentication replay late dup expiry [of 302000] expiry [of 302001]
    by simp
qed

text \<open>
  Claim C7. The registration options issued for an account carry an exclusion list that
  consists exactly of the ids and transports of the account's passkeys, in order, and is
  empty when there are none; and a later successful registration for that account, in a
  repository that still holds those passkeys, never stores one of the excluded ids (nor
  any id the repository already has).
\<close>
theorem exclusion_list:
  assumes "getRegistrationOptions URL fresh now kv origin account = (Inr options, kv')"
  shows "excludeCredentials options =
           map (\<lambda>p. \<lparr>id_desc = id_pk p, transports_desc = transports_pk p\<rparr>) (passkeys account)
     \<and> (passkeys account = [] \<longrightarrow> excludeCredentials options = [])
     \<and> (\<forall>V t db kv2 acct name response r db' kv3 info.
          id_acct acct = id_acct account
          \<and> set (passkeys account) \<subseteq> set (passkeyTable db)
          \<and> verifyRegistration URL V t db kv2 origin acct name response = (Inr r, db', kv3)
          \<and> verified_reg r \<and> registrationInfo r = Some info
          \<longrightarrow> id_cred (credential info) \<notin> id_desc ` set (excludeCredentials options)
              \<and> id_cred (credential info) \<notin> id_pk ` set (passkeyTable db))"
proof -
  from assms have ex: "excludeCredentials options =
      map (\<lambda>p. \<lparr>id_desc = id_pk p, transports_desc = transports_pk p\<rparr>) (passkeys account)"
    by (auto simp: getRegistrationOptions_def Let_def generateRegistrationOptions_def
          split: option.splits)
  have ids: "id_desc ` set (excludeCredentials options) = id_pk ` set (passkeys account)"
    by (auto simp: ex image_iff)
  show ?thesis
  proof (intro conjI allI impI)
    show "excludeCredentials options =
        map (\<lambda>p. \<lparr>id_desc = id_pk p, transports_desc = transports_pk p\<rparr>) (passkeys account)"
      by (rule ex)
    show "excludeCredentials options = []" if "passkeys account = []"
      using that by (simp add: ex)
  next
    fix V t db kv2 acct name response r db' kv3 info
    assume h: "id_acct acct = id_acct account
          \<and> set (passkeys account) \<subseteq> set (passkeyTable db)
          \<and> verifyRegistration URL V t db kv2 origin acct name response = (Inr r, db', kv3)
          \<and> verified_reg r \<and> registrationInfo r = Some info"
    then obtain row where "db_insert db row = Inr db'" "id_pk row = id_cred (credential info)"
      using verifyRegistration_inserts by blast
    then show fresh: "id_cred (credential info) \<notin> id_pk ` set (passkeyTable db)"
      using db_insert_fresh by metis
    with h show "id_cred (credential info) \<notin> id_desc ` set (excludeCredentials options)"
      unfolding ids by blast
  qed
qed

text \<open>
  \<open>alice\<close> owns \<open>cred-1\<close>: it is excluded, and \<open>cred-3\<close> is registered.
\<close>

theorem exclusion_list_witness:
  "getRegistrationOptions site_URL (''challenge-3'', ''handle-1'') 6000 kv_authenticating site
     alice_registered = (Inr options_again, kv_again)
   \<and> excludeCredentials options_again =
       [\<lparr>id_desc = ''cred-1'', transports_desc = Some [''internal'']\<rparr>]
   \<and> registered (fst (verifyRegistration site_URL plain_registration_verifier 7000 db_registered
        kv_again site alice (utf16 ''key'') cred3_registration))
   \<and> ''cred-3'' \<notin> id_desc ` set (excludeCredentials options_again)"
proof -
  note t = exclusion_list [OF scenario_again]
  from scenario_third_registration obtain r db' kv' info where
    call: "verifyRegistration site_URL plain_registration_verifier 7000 db_registered
       kv_again site alice (utf16 ''key'') cred3_registration = (Inr r, db', kv')"
    and ok: "verified_reg r" "registrationInfo r = Some info" "id_cred (credential info) = ''cred-3''"
    by auto
  have same: "id_acct alice = id_acct alice_registered"
    by (simp add: alice_def alice_registered_def)
  have sub: "set (passkeys alice_registered) \<subseteq> set (passkeyTable db_registered)"
    by (simp add: alice_registered_def db_registered_def)
  have hyps: "id_acct alice = id_acct alice_registered
      \<and> set (passkeys alice_registered) \<subseteq> set (passkeyTable db_registered)
      \<and> verifyRegistration site_URL plain_registration_verifier 7000 db_registered
            kv_again site alice (utf16 ''key'') cred3_registration = (Inr r, db', kv')
      \<and> verified_reg r \<and> registrationInfo r = Some info"
    using same sub call ok by simp
  from t [THEN conjunct2, THEN conjunct2, rule_format, OF hyps]
  have "''cred-3'' \<notin> id_desc ` set (excludeCredentials options_again)"
    by (simp add: ok)
  moreover from t have "excludeCredentials options_again =
       [\<lparr>id_desc = ''cred-1'', transports_desc = Some [''internal'']\<rparr>]"
    by (simp add: alice_registered_def cred1_row_def)
  ultimately show ?thesis using scenario_again scenario_third_registration by simp
qed

text \<open>
  Claim C8, as stated: the value returned by a successful registration does not contain
  the stored public key, and the value of a failing submission contains no stored public
  key. \<open>verifyRegistration\<close> returns the verifier's result, whose registration
  information holds the very key it stored; and \<open>verifyAuthentication\<close> returns the
  matched row, key included, also when the verifier found the response unverified.
\<close>
theorem public_key_exposed_counterexample:
  "registered (fst (verifyRegistration site_URL plain_registration_verifier 1000 db_init
       kv_registering site alice (utf16 ''  laptop '') cred1_registration))
   \<and> registration_result_keys (fst (verifyRegistration site_URL plain_registration_verifier 1000
       db_init kv_registering site alice (utf16 ''  laptop '') cred1_registration)) = [ [1, 2, 3] ]
   \<and> map publicKey_pk (passkeyTable (fst (snd (verifyRegistration site_URL
       plain_registration_verifier 1000 db_init kv_registering site alice (utf16 ''  laptop '')
       cred1_registration)))) = [ [1, 2, 3] ]
   \<and> \<not> authenticated (fst (verifyAuthentication site_URL rejecting_verifier 3000 db_registered
       kv_authenticating site ''sess-1'' (cred1_assertion 7)))
   \<and> authentication_result_keys (fst (verifyAuthentication site_URL rejecting_verifier 3000
       db_registered kv_authenticating site ''sess-1'' (cred1_assertion 7))) = [ [1, 2, 3] ]
   \<and> map publicKey_pk (passkeyTable db_registered) = [ [1, 2, 3] ]"
  unfolding scenario_registration scenario_unverified_authentication
  by (simp add: registered_def authenticated_def registration_result_keys_def
      authentication_result_keys_def db_registered_def cred1_row_def)

text \<open>
  Claim C8, amended. The value returned by a successful registration is the verifier's
  own result for the request built from the stored challenge; it contains the credential's
  public key, and the repository afterwards holds a row with that credential id and the
  same key bytes. Every object \<open>verifyAuthentication\<close> returns, also for a response the
  verifier reports as unverified, is the verifier's result together with the matched
  repository row, the row whose id the response names, stored public key included.
  \<open>undefined\<close> is returned only when the challenge is absent or expired or the credential
  is unknown. A thrown failure is one of: the missing-options error, raised only when the
  entry is absent or expired, which names the account id; the URL error, only when the
  origin does not parse; the verifier's error, passed on exactly as the verifier raised
  it for the request built from the stored challenge (and, for authentication, from the
  stored row); and, in a registration the verifier accepted, the type error for stored
  options without a user or the duplicate-credential error for an id the repository
  already holds.
\<close>
theorem returned_values_expose_keys:
  "(verifyRegistration URL V now db kv origin account name response = (res, db', kv') \<longrightarrow>
      (\<forall>r info. res = Inr r \<and> verified_reg r \<and> registrationInfo r = Some info \<longrightarrow>
          (\<exists>options u. fst (kv_get kv now (registration_key (id_acct account))) = Some options
              \<and> URL origin = Some u
              \<and> V (registration_request_of options u response) = Inr r)
          \<and> (\<exists>row \<in> set (passkeyTable db').
                id_pk row = id_cred (credential info)
                \<and> publicKey_pk row = publicKey_cred (credential info)))
      \<and> (\<forall>e. res = Inl e \<longrightarrow>
            (e = MissingChallenge (id_acct account)
               \<and> absent_or_expired kv now (registration_key (id_acct account)))
            \<or> (\<exists>options. fst (kv_get kv now (registration_key (id_acct account))) = Some options
                 \<and> e = InvalidURL \<and> URL origin = None)
            \<or> (\<exists>options u v.
                 fst (kv_get kv now (registration_key (id_acct account))) = Some options
                 \<and> URL origin = Some u
                 \<and> V (registration_request_of options u response) = Inl v
                 \<and> e = VerifierError v)
            \<or> (\<exists>options u r info.
                 fst (kv_get kv now (registration_key (id_acct account))) = Some options
                 \<and> URL origin = Some u
                 \<and> V (registration_request_of options u response) = Inr r
                 \<and> verified_reg r \<and> registrationInfo r = Some info
                 \<and> (e = TypeError \<and> user_id_of options = None
                     \<or> e = DuplicateCredential
                       \<and> id_cred (credential info) \<in> id_pk ` set (passkeyTable db)))))
   \<and> (verifyAuthentication URL W now db kv origin sid assertion = (ares, adb', akv') \<longrightarrow>
      (\<forall>out. ares = Inr (Some out) \<longrightarrow>
          passkey_out out \<in> set (passkeyTable db)
          \<and> id_pk (passkey_out out) = id_ar assertion
          \<and> (\<exists>options u. fst (kv_get kv now (authentication_key sid)) = Some options
                \<and> URL origin = Some u
                \<and> W (authentication_request_of options u (passkey_out out) assertion) =
                     Inr (response_out out)))
      \<and> (ares = Inr None \<longrightarrow>
            absent_or_expired kv now (authentication_key sid)
            \<or> findFirst db (id_ar assertion) = None)
      \<and> (\<forall>e. ares = Inl e \<longrightarrow>
            (\<exists>options pk owner.
               fst (kv_get kv now (authentication_key sid)) = Some options
               \<and> findFirst db (id_ar assertion) = Some (pk, owner)
               \<and> (e = InvalidURL \<and> URL origin = None
                   \<or> (\<exists>u v. URL origin = Some u
                         \<and> W (authentication_request_of options u pk assertion) = Inl v
                         \<and> e = VerifierError v)))))"
proof (intro conjI impI allI)
  fix r info
  assume call: "verifyRegistration URL V now db kv origin account name response = (res, db', kv')"
    and ok: "res = Inr r \<and> verified_reg r \<and> registrationInfo r = Some info"
  from call ok have call': "verifyRegistration URL V now db kv origin account name response =
      (Inr r, db', kv')" by simp
  from verifyRegistration_returned [OF call']
  show "\<exists>options u. fst (kv_get kv now (registration_key (id_acct account))) = Some options
      \<and> URL origin = Some u \<and> V (registration_request_of options u response) = Inr r"
    by blast
  from verifyRegistration_inserts [OF call'] ok
  obtain row where row: "db_insert db row = Inr db'" "id_pk row = id_cred (credential info)"
      "publicKey_pk row = publicKey_cred (credential info)" by blast
  from row(1) have "row \<in> set (passkeyTable db')"
    by (auto simp: db_insert_def split: if_splits)
  with row(2,3) show "\<exists>row \<in> set (passkeyTable db').
      id_pk row = id_cred (credential info) \<and> publicKey_pk row = publicKey_cred (credential info)"
    by blast
next
  fix e
  assume "verifyRegistration URL V now db kv origin account name response = (res, db', kv')"
    and "res = Inl e"
  then have "verifyRegistration URL V now db kv origin account name response = (Inl e, db', kv')"
    by simp
  from verifyRegistration_thrown [OF this]
  show "(e = MissingChallenge (id_acct account)
            \<and> absent_or_expired kv now (registration_key (id_acct account)))
       \<or> (\<exists>options. fst (kv_get kv now (registration_key (id_acct account))) = Some options
            \<and> e = InvalidURL \<and> URL origin = None)
       \<or> (\<exists>options u v. fst (kv_get kv now (registration_key (id_acct account))) = Some options
            \<and> URL origin = Some u
            \<and> V (registration_request_of options u response) = Inl v \<and> e = VerifierError v)
       \<or> (\<exists>options u r info.
            fst (kv_get kv now (registration_key (id_acct account))) = Some options
            \<and> URL origin = Some u
            \<and> V (registration_request_of options u response) = Inr r
            \<and> verified_reg r \<and> registrationInfo r = Some info
            \<and> (e = TypeError \<and> user_id_of options = None
                \<or> e = DuplicateCredential
                  \<and> id_cred (credential info) \<in> id_pk ` set (passkeyTable db)))" .
next
  fix out
  assume "verifyAuthentication URL W now db kv origin sid assertion = (ares, adb', akv')"
    and "ares = Inr (Some out)"
  then have call: "verifyAuthentication URL W now db kv origin sid assertion =
      (Inr (Some out), adb', akv')" by simp
  note ret = verifyAuthentication_returned [OF call]
  from ret have found: "findFirst db (id_ar assertion) = Some (passkey_out out, account_out out)"
    by blast
  from findFirst_id [OF found]
  show "passkey_out out \<in> set (passkeyTable db)" and "id_pk (passkey_out out) = id_ar assertion"
    by simp_all
  from ret show "\<exists>options u. fst (kv_get kv now (authentication_key sid)) = Some options
      \<and> URL origin = Some u
      \<and> W (authentication_request_of options u (passkey_out out) assertion) = Inr (response_out out)"
    by blast
next
  assume "verifyAuthentication URL W now db kv origin sid assertion = (ares, adb', akv')"
    and "ares = Inr None"
  then have "verifyAuthentication URL W now db kv origin sid assertion = (Inr None, adb', akv')"
    by simp
  from verifyAuthentication_undefined [OF this]
  show "absent_or_expired kv now (authentication_key sid)
      \<or> findFirst db (id_ar assertion) = None" .
next
  fix e
  assume "verifyAuthentication URL W now db kv origin sid assertion = (ares, adb', akv')"
    and "ares = Inl e"
  then have "verifyAuthentication URL W now db kv origin sid assertion = (Inl e, adb', akv')"
    by simp
  from verifyAuthentication_thrown [OF this]
  show "\<exists>options pk owner.
           fst (kv_get kv now (authentication_key sid)) = Some options
           \<and> findFirst db (id_ar assertion) = Some (pk, owner)
           \<and> (e = InvalidURL \<and> URL origin = None
               \<or> (\<exists>u v. URL origin = Some u
                     \<and> W (authentication_request_of options u pk assertion) = Inl v
                     \<and> e = VerifierError v))" .
qed

text \<open>
  In the scenario: the registered key is in the returned result and in the repository, the
  unverified assertion gets the row back, and the stale registration gets the verifier's
  error.
\<close>

theorem returned_values_expose_keys_witness:
  "registered (fst (verifyRegistration site_URL plain_registration_verifier 1000 db_init
       kv_registering site alice (utf16 ''  laptop '') cred1_registration))
   \<and> (\<exists>row \<in> set (passkeyTable db_registered).
         id_pk row = ''cred-1'' \<and> publicKey_pk row = [1, 2, 3])
   \<and> \<not> authenticated (fst (verifyAuthentication site_URL rejecting_verifier 3000 db_registered
       kv_authenticating site ''sess-1'' (cred1_assertion 7)))
   \<and> cred1_row \<in> set (passkeyTable db_registered)
   \<and> id_pk cred1_row = id_ar (cred1_assertion 7)
   \<and> fst (verifyRegistration site_URL plain_registration_verifier 1000 db_init kv_registering
       site alice (utf16 ''laptop'') (cred1_registration\<lparr>challenge_rr := ''stale''\<rparr>)) =
       Inl (VerifierError VerificationFailed)
   \<and> (\<exists>options u. plain_registration_verifier
         (registration_request_of options u (cred1_registration\<lparr>challenge_rr := ''stale''\<rparr>)) =
         Inl VerificationFailed)"
proof -
  let ?info = "\<lparr>credential = \<lparr>id_cred = ''cred-1'', publicKey_cred = [1, 2, 3], counter_cred = 0,
                          transports_cred = Some [''internal'']\<rparr>,
            credentialDeviceType = singleDevice, credentialBackedUp = False\<rparr>"
  let ?r = "\<lparr>verified_reg = True, registrationInfo = Some ?info\<rparr>"
  let ?out = "\<lparr>response_out = \<lparr>verified_auth = False,
                    authenticationInfo = \<lparr>credentialID = ''cred-1'', newCounter = 7\<rparr>\<rparr>,
                 account_out = Some alice, passkey_out = cred1_row\<rparr>"
  have ok: "Inr ?r = Inr ?r \<and> verified_reg ?r \<and> registrationInfo ?r = Some ?info" by simp
  from returned_values_expose_keys [THEN conjunct1, rule_format, OF scenario_registration,
      THEN conjunct1, rule_format, OF ok, THEN conjunct2]
  have stored: "\<exists>row \<in> set (passkeyTable db_registered).
      id_pk row = ''cred-1'' \<and> publicKey_pk row = [1, 2, 3]"
    by simp
  from returned_values_expose_keys [THEN conjunct2, rule_format,
      OF scenario_unverified_authentication, THEN conjunct1, rule_format, OF refl]
  have row: "cred1_row \<in> set (passkeyTable db_registered)"
    and id: "id_pk cred1_row = id_ar (cred1_assertion 7)"
    by simp_all
  from returned_values_expose_keys [THEN conjunct1, rule_format, OF scenario_stale_registration,
      THEN conjunct2, rule_format, OF refl]
  have thrown: "\<exists>options u. plain_registration_verifier
         (registration_request_of options u (cred1_registration\<lparr>challenge_rr := ''stale''\<rparr>)) =
         Inl VerificationFailed"
    by auto
  show ?thesis
    using stored row id thrown
    by (simp add: scenario_registration scenario_unverified_authentication
        scenario_stale_registration registered_def authenticated_def)
qed

text \<open>
  Claim C9 asks for a bounded time-to-live on the registration challenge.
  \<open>getRegistrationOptions\<close> passes none to \<open>kv.set\<close>, unlike \<open>getAuthenticationOptions\<close>:
  in a store without a default the entry has no expiry and is still returned a hundred
  years later.
\<close>
theorem registration_challenge_never_expires:
  "expires (the (store kv_registering ''passkey/registration/alice'')) = None
   \<and> fst (kv_get kv_registering (1000 * 60 * 60 * 24 * 365 * 100) ''passkey/registration/alice'') =
       Some (CreationOptions
         \<lparr>challenge_creation = ''challenge-1'',
          rp = \<lparr>name_rp = RP_NAME, id_rp = ''hackers.pub''\<rparr>,
          user = \<lparr>id_user = ''handle-1'', name_user = ''alice''\<rparr>,
          attestation = ''none'', excludeCredentials = []\<rparr>)"
  by (simp add: scenario_defs operation_defs Let_def)

end
